theory Spec2Isabelle
  imports Complex_Main
begin

section \<open>JavaScript strings\<close>

text \<open>
  A JavaScript string is modelled as a \<open>string\<close>, one \<open>char\<close> per code unit, which covers
  the ASCII and Latin-1 range. The helpers below are the built-in string methods the
  source calls (\<open>trim\<close>, \<open>startsWith\<close>, \<open>endsWith\<close>, \<open>toLowerCase\<close>, \<open>join\<close> and the
  conversion of an array index to text inside a template literal).
\<close>

definition isWhiteSpace :: "char \<Rightarrow> bool" where
  "isWhiteSpace c =
     (c \<in> set [CHR 0x09, CHR 0x0A, CHR 0x0B, CHR 0x0C, CHR 0x0D, CHR 0x20, CHR 0xA0])"

definition isLineTerminator :: "char \<Rightarrow> bool" where
  "isLineTerminator c = (c \<in> set [CHR 0x0A, CHR 0x0D])"

definition trim :: "string \<Rightarrow> string" where
  "trim s = rev (dropWhile isWhiteSpace (rev (dropWhile isWhiteSpace s)))"

definition startsWith :: "string \<Rightarrow> string \<Rightarrow> bool" where
  "startsWith s p = (take (length p) s = p)"

definition endsWith :: "string \<Rightarrow> string \<Rightarrow> bool" where
  "endsWith s p = (length p \<le> length s \<and> drop (length s - length p) s = p)"

definition toLowerChar :: "char \<Rightarrow> char" where
  "toLowerChar c =
     (let n = (of_char c :: nat) in
      if (65 \<le> n \<and> n \<le> 90) \<or> (192 \<le> n \<and> n \<le> 222 \<and> n \<noteq> 215) then char_of (n + 32)
      else c)"

definition toLowerCase :: "string \<Rightarrow> string" where
  "toLowerCase s = map toLowerChar s"

fun join :: "string \<Rightarrow> string list \<Rightarrow> string" where
  "join sep [] = []"
| "join sep [x] = x"
| "join sep (x # y # ys) = x @ sep @ join sep (y # ys)"

fun string_of_nat :: "nat \<Rightarrow> string" where
  "string_of_nat n =
     (if n < 10 then [char_of (48 + n)]
      else string_of_nat (n div 10) @ [char_of (48 + n mod 10)])"

declare string_of_nat.simps [simp del]

section \<open>Item data (types/FeedItemTypes.ts)\<close>

text \<open>
  An optional property is an \<open>option\<close>. Field names that several interfaces share
  (\<open>url\<close>, \<open>title\<close>, \<open>type\<close>, \<open>language\<close>) carry the interface as a prefix. Pixel sizes,
  durations and byte lengths are natural numbers. A \<open>number\<close> that the code compares
  (\<open>priority\<close>) keeps the non-finite values of a double.
\<close>

type_synonym instant = int

datatype jsnumber = Finite real | NaN | PosInfinity | NegInfinity

datatype jsvalue = VString string | VNumber jsnumber

text \<open>\<open>Date | string\<close>: a \<open>Date\<close> object holds an instant or is an Invalid Date.\<close>

datatype pubdate = DateObject "instant option" | DateString string

datatype category = Single string | Many "string list"

datatype ChangeFrequency = always | hourly | daily | weekly | monthly | yearly | never

record EnclosureData =
  enc_url :: string
  enc_type :: string
  enc_length :: "nat option"

record ImageData =
  img_url :: string
  img_title :: "string option"
  img_caption :: "string option"
  img_type :: "string option"
  img_width :: "nat option"
  img_height :: "nat option"
  img_license :: "string option"
  img_geoLocation :: "string option"

record VideoData =
  thumbnail_url :: string
  vid_title :: string
  vid_description :: string
  content_url :: string
  duration :: "nat option"
  rating :: "jsnumber option"
  view_count :: "nat option"
  publication_date :: "string option"
  family_friendly :: "bool option"
  tags :: "string list option"

record TranslationData =
  tr_language :: string
  tr_url :: string

record NewsData =
  sitename :: string
  news_language :: string
  news_publication_date :: pubdate
  news_title :: string
  news_keywords :: "string option"

record FeedItemData =
  title :: string
  description :: string
  link :: string
  author :: "string option"
  pubdate :: "pubdate option"
  guid :: "string option"
  category :: "category option"
  enclosure :: "EnclosureData option"
  images :: "ImageData list option"
  videos :: "VideoData list option"
  item_translations :: "TranslationData list option"
  news :: "NewsData option"
  priority :: "jsnumber option"
  changefreq :: "ChangeFrequency option"

section \<open>Validation (utils/Validator.ts)\<close>

record ValidationError =
  field :: string
  error_type :: string
  message :: string
  error_value :: jsvalue

text \<open>
  The scheme part \<open>^https?:\/\/\<close> of both regular expressions, under the \<open>i\<close> flag:
  the rest of the string after the scheme, when the scheme matches.
\<close>

definition matchScheme :: "string \<Rightarrow> string option" where
  "matchScheme s =
     (if toLowerCase (take 4 s) = ''http'' then
        (let r = drop 4 s in
         if take 3 r = ''://'' then Some (drop 3 r)
         else if toLowerCase (take 1 r) = ''s'' \<and> take 3 (drop 1 r) = ''://''
           then Some (drop 4 r)
         else None)
      else None)"

text \<open>\<open>/^https?:\/\/[^\s/$.?#].[^\s]*$/i\<close>\<close>

definition urlPattern_test :: "string \<Rightarrow> bool" where
  "urlPattern_test s =
     (case matchScheme s of
        None \<Rightarrow> False
      | Some r \<Rightarrow>
          (case r of
             c1 # c2 # cs \<Rightarrow>
               \<not> isWhiteSpace c1 \<and> c1 \<notin> set ''/$.?#'' \<and> \<not> isLineTerminator c2 \<and>
               list_all (\<lambda>c. \<not> isWhiteSpace c) cs
           | _ \<Rightarrow> False))"

definition isValidUrl :: "string \<Rightarrow> bool" where
  "isValidUrl url = (if trim url = [] then False else urlPattern_test (trim url))"

text \<open>\<open>url.match(/^https?:\/\/([^/]+)/i)\<close>: the first capture group.\<close>

definition hostnameMatch :: "string \<Rightarrow> string option" where
  "hostnameMatch url =
     (case matchScheme url of
        None \<Rightarrow> None
      | Some r \<Rightarrow>
          (let h = takeWhile (\<lambda>c. c \<noteq> CHR ''/'') r in if h = [] then None else Some h))"

text \<open>An absent \<open>allowedDomains\<close> argument is the empty list.\<close>

definition isAllowedDomain :: "string \<Rightarrow> string list \<Rightarrow> bool" where
  "isAllowedDomain url allowedDomains =
     (if allowedDomains = [] then True
      else
        (case hostnameMatch url of
           None \<Rightarrow> False
         | Some h \<Rightarrow>
             (let hostname = toLowerCase h in
              if hostname = [] then False
              else
                list_ex
                  (\<lambda>domain.
                     let normalizedDomain = toLowerCase domain in
                     hostname = normalizedDomain \<or>
                     endsWith hostname (''.'' @ normalizedDomain))
                  allowedDomains)))"

text \<open>\<open>/^[a-z]{2}(-[A-Z]{2})?$/\<close>\<close>

definition isLowerAlpha :: "char \<Rightarrow> bool" where
  "isLowerAlpha c = (let n = (of_char c :: nat) in 97 \<le> n \<and> n \<le> 122)"

definition isUpperAlpha :: "char \<Rightarrow> bool" where
  "isUpperAlpha c = (let n = (of_char c :: nat) in 65 \<le> n \<and> n \<le> 90)"

definition langPattern_test :: "string \<Rightarrow> bool" where
  "langPattern_test s =
     (case s of
        [a, b] \<Rightarrow> isLowerAlpha a \<and> isLowerAlpha b
      | [a, b, d, e, f] \<Rightarrow>
          isLowerAlpha a \<and> isLowerAlpha b \<and> d = CHR ''-'' \<and> isUpperAlpha e \<and> isUpperAlpha f
      | _ \<Rightarrow> False)"

definition isValidLanguageCode :: "string \<Rightarrow> bool" where
  "isValidLanguageCode lang = (if trim lang = [] then False else langPattern_test lang)"

fun isValidPriority :: "jsnumber \<Rightarrow> bool" where
  "isValidPriority (Finite p) = (0 \<le> p \<and> p \<le> 1)"
| "isValidPriority _ = False"

text \<open>
  The fields the validator reads are typed \<open>string\<close>, so the \<open>typeof value !== 'string'\<close>
  half of the test is false and the check is the one on the trimmed value.
\<close>

definition validateRequiredString :: "string \<Rightarrow> string \<Rightarrow> ValidationError option" where
  "validateRequiredString v fieldName =
     (if trim v = [] then
        Some \<lparr>field = fieldName, error_type = ''required'',
              message = fieldName @ '' is required and must be a non-empty string'',
              error_value = VString v\<rparr>
      else None)"

definition validateUrl :: "string \<Rightarrow> string \<Rightarrow> string list \<Rightarrow> ValidationError option" where
  "validateUrl url fieldName allowedDomains =
     (case validateRequiredString url fieldName of
        Some stringError \<Rightarrow> Some stringError
      | None \<Rightarrow>
          if \<not> isValidUrl url then
            Some \<lparr>field = fieldName, error_type = ''invalid_url'',
                  message = fieldName @ '' must be a valid HTTP or HTTPS URL'',
                  error_value = VString url\<rparr>
          else if \<not> isAllowedDomain url allowedDomains then
            Some \<lparr>field = fieldName, error_type = ''domain_not_allowed'',
                  message = fieldName @ '' domain is not in the allowed domains list'',
                  error_value = VString url\<rparr>
          else None)"

text \<open>\<open>if (e) errors.push(e)\<close>\<close>

fun push_if :: "ValidationError list \<Rightarrow> ValidationError option \<Rightarrow> ValidationError list" where
  "push_if errors None = errors"
| "push_if errors (Some e) = errors @ [e]"

text \<open>
  The three \<open>forEach\<close> loops: the running index, the rest of the array and the
  \<open>errors\<close> array that the callback pushes to.
\<close>

fun validate_images ::
  "string list \<Rightarrow> nat \<Rightarrow> ImageData list \<Rightarrow> ValidationError list \<Rightarrow> ValidationError list" where
  "validate_images allowedDomains index [] errors = errors"
| "validate_images allowedDomains index (img # rest) errors =
     validate_images allowedDomains (index + 1) rest
       (push_if errors
          (validateUrl (img_url img) (''images['' @ string_of_nat index @ ''].url'')
             allowedDomains))"

fun validate_videos ::
  "string list \<Rightarrow> nat \<Rightarrow> VideoData list \<Rightarrow> ValidationError list \<Rightarrow> ValidationError list" where
  "validate_videos allowedDomains index [] errors = errors"
| "validate_videos allowedDomains index (video # rest) errors =
     (let pre = ''videos['' @ string_of_nat index @ '']'';
          errors1 = push_if errors
            (validateUrl (thumbnail_url video) (pre @ ''.thumbnail_url'') allowedDomains);
          errors2 = push_if errors1
            (validateUrl (content_url video) (pre @ ''.content_url'') allowedDomains);
          errors3 = push_if errors2 (validateRequiredString (vid_title video) (pre @ ''.title''));
          errors4 = push_if errors3
            (validateRequiredString (vid_description video) (pre @ ''.description''))
      in validate_videos allowedDomains (index + 1) rest errors4)"

fun validate_translations ::
  "string list \<Rightarrow> nat \<Rightarrow> TranslationData list \<Rightarrow> ValidationError list \<Rightarrow> ValidationError list"
  where
  "validate_translations allowedDomains index [] errors = errors"
| "validate_translations allowedDomains index (translation # rest) errors =
     (let pre = ''translations['' @ string_of_nat index @ '']'';
          errors1 = push_if errors
            (validateRequiredString (tr_language translation) (pre @ ''.language''));
          errors2 =
            (if \<not> isValidLanguageCode (tr_language translation) then
               errors1 @
               [\<lparr>field = pre @ ''.language'', error_type = ''invalid_language'',
                 message = ''language must be a valid RFC 3066 language code'',
                 error_value = VString (tr_language translation)\<rparr>]
             else errors1);
          errors3 = push_if errors2
            (validateUrl (tr_url translation) (pre @ ''.url'') allowedDomains)
      in validate_translations allowedDomains (index + 1) rest errors3)"

definition validateFeedItem :: "FeedItemData \<Rightarrow> string list \<Rightarrow> ValidationError list" where
  "validateFeedItem item allowedDomains =
     (let errors0 = [];
          errors1 = push_if errors0 (validateRequiredString (title item) ''title'');
          errors2 = push_if errors1 (validateRequiredString (description item) ''description'');
          errors3 = push_if errors2 (validateUrl (link item) ''link'' allowedDomains);
          errors4 =
            (case author item of
               None \<Rightarrow> errors3
             | Some a \<Rightarrow> push_if errors3 (validateRequiredString a ''author''));
          errors5 =
            (case priority item of
               None \<Rightarrow> errors4
             | Some p \<Rightarrow>
                 if \<not> isValidPriority p then
                   errors4 @
                   [\<lparr>field = ''priority'', error_type = ''invalid_range'',
                     message = ''priority must be a number between 0.0 and 1.0'',
                     error_value = VNumber p\<rparr>]
                 else errors4);
          errors6 =
            (case images item of
               None \<Rightarrow> errors5
             | Some imgs \<Rightarrow> validate_images allowedDomains 0 imgs errors5);
          errors7 =
            (case videos item of
               None \<Rightarrow> errors6
             | Some vids \<Rightarrow> validate_videos allowedDomains 0 vids errors6);
          errors8 =
            (case item_translations item of
               None \<Rightarrow> errors7
             | Some trs \<Rightarrow> validate_translations allowedDomains 0 trs errors7)
      in errors8)"

section \<open>Dates (utils/DateHelper.ts)\<close>

text \<open>
  The built-in \<open>Date\<close> is a parameter: \<open>Date_parse\<close> is \<open>new Date(text)\<close> (\<open>None\<close> for an
  Invalid Date), \<open>toISOString\<close> and \<open>toUTCString\<close> are the two methods the helpers call.
  The system clock is the argument \<open>now\<close> of every operation that reads it.
\<close>

record DateLib =
  Date_parse :: "string \<Rightarrow> instant option"
  toISOString :: "instant \<Rightarrow> string"
  toUTCString :: "instant \<Rightarrow> string"

datatype error = Error string | RangeError string

definition getCurrentDate :: "DateLib \<Rightarrow> instant \<Rightarrow> string" where
  "getCurrentDate lib now = toISOString lib now"

section \<open>The feed aggregate (core/Feed.ts)\<close>

text \<open>\<open>FeedConfig\<close> as the caller supplies it: every option may be absent.\<close>

record FeedConfig =
  cfg_baseUrl :: "string option"
  cfg_validate :: "bool option"
  cfg_escapeContent :: "bool option"
  cfg_prettyPrint :: "bool option"
  cfg_dateFormat :: "string option"
  cfg_language :: "string option"
  cfg_maxItems :: "int option"
  cfg_maxFileSize :: "int option"
  cfg_allowedDomains :: "string list option"
  cfg_version :: "string option"

text \<open>\<open>Required<FeedConfig>\<close>, the effective configuration the constructor stores.\<close>

record RequiredFeedConfig =
  baseUrl :: string
  validate :: bool
  escapeContent :: bool
  prettyPrint :: bool
  dateFormat :: string
  language :: string
  maxItems :: int
  maxFileSize :: int
  allowedDomains :: "string list"
  version :: string

record FeedItem =
  data :: FeedItemData

text \<open>
  The private fields of \<open>Feed\<close>. The metadata fields that share a name with an item
  field carry the prefix \<open>feed\<close>. The adapters are stored and never read, and are left out.
\<close>

record Feed =
  config :: RequiredFeedConfig
  items :: "FeedItem list"
  feed_title :: string
  feed_description :: string
  feed_link :: string
  feed_language :: string
  copyright :: string
  managingEditor :: string
  webMaster :: string
  feed_category :: string
  generator :: string
  docs :: string
  lastBuildDate :: string

text \<open>\<open>a || d\<close> on strings and numbers, \<open>a ?? d\<close> on any option.\<close>

definition or_string :: "string option \<Rightarrow> string \<Rightarrow> string" where
  "or_string a d = (case a of None \<Rightarrow> d | Some s \<Rightarrow> if s = [] then d else s)"

definition or_number :: "int option \<Rightarrow> int \<Rightarrow> int" where
  "or_number a d = (case a of None \<Rightarrow> d | Some n \<Rightarrow> if n = 0 then d else n)"

definition nullish :: "'a option \<Rightarrow> 'a \<Rightarrow> 'a" where
  "nullish a d = (case a of None \<Rightarrow> d | Some v \<Rightarrow> v)"

definition Feed_config :: "FeedConfig \<Rightarrow> RequiredFeedConfig" where
  "Feed_config c =
     \<lparr>baseUrl = or_string (cfg_baseUrl c) [],
      validate = nullish (cfg_validate c) False,
      escapeContent = nullish (cfg_escapeContent c) True,
      prettyPrint = nullish (cfg_prettyPrint c) False,
      dateFormat = or_string (cfg_dateFormat c) ''ISO'',
      language = or_string (cfg_language c) ''en'',
      maxItems = or_number (cfg_maxItems c) 50000,
      maxFileSize = or_number (cfg_maxFileSize c) (50 * 1024 * 1024),
      allowedDomains = nullish (cfg_allowedDomains c) [],
      version = nullish (cfg_version c) ''1.0.0''\<rparr>"

text \<open>A call without a configuration passes the empty object.\<close>

definition empty_config :: FeedConfig where
  "empty_config =
     \<lparr>cfg_baseUrl = None, cfg_validate = None, cfg_escapeContent = None,
      cfg_prettyPrint = None, cfg_dateFormat = None, cfg_language = None,
      cfg_maxItems = None, cfg_maxFileSize = None, cfg_allowedDomains = None,
      cfg_version = None\<rparr>"

definition Feed_constructor :: "DateLib \<Rightarrow> instant \<Rightarrow> FeedConfig \<Rightarrow> Feed" where
  "Feed_constructor lib now c =
     \<lparr>config = Feed_config c,
      items = [],
      feed_title = [],
      feed_description = [],
      feed_link = [],
      feed_language = language (Feed_config c),
      copyright = [],
      managingEditor = [],
      webMaster = [],
      feed_category = [],
      generator = ''@rumenx/feed'',
      docs = ''https://www.rssboard.org/rss-specification'',
      lastBuildDate = getCurrentDate lib now\<rparr>"

definition setTitle :: "string \<Rightarrow> Feed \<Rightarrow> Feed" where
  "setTitle t f = f\<lparr>feed_title := trim t\<rparr>"

definition setDescription :: "string \<Rightarrow> Feed \<Rightarrow> Feed" where
  "setDescription d f = f\<lparr>feed_description := trim d\<rparr>"

definition setLink :: "string \<Rightarrow> Feed \<Rightarrow> Feed" where
  "setLink l f = f\<lparr>feed_link := trim l\<rparr>"

definition setLanguage :: "string \<Rightarrow> Feed \<Rightarrow> Feed" where
  "setLanguage l f = f\<lparr>feed_language := trim l\<rparr>"

definition setCopyright :: "string \<Rightarrow> Feed \<Rightarrow> Feed" where
  "setCopyright c f = f\<lparr>copyright := trim c\<rparr>"

definition setManagingEditor :: "string \<Rightarrow> Feed \<Rightarrow> Feed" where
  "setManagingEditor email f = f\<lparr>managingEditor := trim email\<rparr>"

definition setCategory :: "string \<Rightarrow> Feed \<Rightarrow> Feed" where
  "setCategory c f = f\<lparr>feed_category := trim c\<rparr>"

definition setWebMaster :: "string \<Rightarrow> Feed \<Rightarrow> Feed" where
  "setWebMaster email f = f\<lparr>webMaster := trim email\<rparr>"

definition resolveUrl :: "Feed \<Rightarrow> string \<Rightarrow> string" where
  "resolveUrl f url =
     (if baseUrl (config f) = [] \<or> startsWith url ''http://'' \<or> startsWith url ''https://''
      then url
      else
        (let base =
               (if endsWith (baseUrl (config f)) ''/'' then butlast (baseUrl (config f))
                else baseUrl (config f));
             path = (if startsWith url ''/'' then url else ''/'' @ url)
         in base @ path))"

definition processItemData :: "Feed \<Rightarrow> FeedItemData \<Rightarrow> FeedItemData" where
  "processItemData f itemData =
     (if baseUrl (config f) \<noteq> [] then
        itemData
          \<lparr>link := resolveUrl f (link itemData),
           images :=
             map_option (map (\<lambda>img. img\<lparr>img_url := resolveUrl f (img_url img)\<rparr>))
               (images itemData),
           videos :=
             map_option
               (map (\<lambda>video. video
                  \<lparr>thumbnail_url := resolveUrl f (thumbnail_url video),
                   content_url := resolveUrl f (content_url video)\<rparr>))
               (videos itemData),
           item_translations :=
             map_option (map (\<lambda>trans. trans\<lparr>tr_url := resolveUrl f (tr_url trans)\<rparr>))
               (item_translations itemData)\<rparr>
      else itemData)"

text \<open>
  A method that can throw returns the outcome together with the aggregate as the call
  leaves it: \<open>Inl\<close> is the exception that reaches the caller, \<open>Inr ()\<close> a normal return.
\<close>

text \<open>Lines 198 to 205 of \<open>addItem\<close>: what happens once validation has let the item through.\<close>

definition addItem_insert :: "DateLib \<Rightarrow> instant \<Rightarrow> FeedItemData \<Rightarrow> Feed \<Rightarrow> (error + unit) \<times> Feed"
  where
  "addItem_insert lib now itemData f =
     (let processedData = processItemData f itemData;
          item = \<lparr>data = processedData\<rparr>
      in (Inr (), f\<lparr>items := items f @ [item], lastBuildDate := getCurrentDate lib now\<rparr>))"

definition addItem :: "DateLib \<Rightarrow> instant \<Rightarrow> FeedItemData \<Rightarrow> Feed \<Rightarrow> (error + unit) \<times> Feed" where
  "addItem lib now itemData f =
     (if validate (config f) then
        (let errors = validateFeedItem itemData (allowedDomains (config f)) in
         if length errors > 0 then
           (Inl (Error (''Validation failed: '' @ join '', '' (map message errors))), f)
         else addItem_insert lib now itemData f)
      else addItem_insert lib now itemData f)"

text \<open>
  \<open>itemsData.forEach(itemData => this.addItem(itemData))\<close>: \<open>clock k\<close> is what the system
  clock shows during the call for the element with index \<open>k\<close>. An exception ends the
  loop and leaves the aggregate as the calls before it made it.
\<close>

fun addItems_from ::
  "DateLib \<Rightarrow> (nat \<Rightarrow> instant) \<Rightarrow> nat \<Rightarrow> FeedItemData list \<Rightarrow> Feed \<Rightarrow> (error + unit) \<times> Feed"
  where
  "addItems_from lib clock k [] f = (Inr (), f)"
| "addItems_from lib clock k (itemData # rest) f =
     (case addItem lib (clock k) itemData f of
        (Inl e, f') \<Rightarrow> (Inl e, f')
      | (Inr u, f') \<Rightarrow> addItems_from lib clock (k + 1) rest f')"

definition addItems ::
  "DateLib \<Rightarrow> (nat \<Rightarrow> instant) \<Rightarrow> FeedItemData list \<Rightarrow> Feed \<Rightarrow> (error + unit) \<times> Feed" where
  "addItems lib clock itemsData f = addItems_from lib clock 0 itemsData f"

definition getItems :: "Feed \<Rightarrow> FeedItem list" where
  "getItems f = items f"

definition getItemCount :: "Feed \<Rightarrow> nat" where
  "getItemCount f = length (items f)"

definition removeItems :: "DateLib \<Rightarrow> instant \<Rightarrow> (FeedItem \<Rightarrow> bool) \<Rightarrow> Feed \<Rightarrow> Feed" where
  "removeItems lib now predicate f =
     f\<lparr>items := filter (\<lambda>item. \<not> predicate item) (items f),
       lastBuildDate := getCurrentDate lib now\<rparr>"

definition clear :: "DateLib \<Rightarrow> instant \<Rightarrow> Feed \<Rightarrow> Feed" where
  "clear lib now f = f\<lparr>items := [], lastBuildDate := getCurrentDate lib now\<rparr>"

text \<open>
  \<open>FeedItem.getPubDate\<close>: an absent (or empty) \<open>pubdate\<close> reads the clock at the time of
  the call; \<open>toISOString\<close> of an Invalid Date throws.
\<close>

definition getPubDate :: "DateLib \<Rightarrow> instant \<Rightarrow> FeedItem \<Rightarrow> error + string" where
  "getPubDate lib now item =
     (case pubdate (data item) of
        None \<Rightarrow> Inr (getCurrentDate lib now)
      | Some (DateString s) \<Rightarrow> if s = [] then Inr (getCurrentDate lib now) else Inr s
      | Some (DateObject None) \<Rightarrow> Inl (RangeError ''Invalid time value'')
      | Some (DateObject (Some t)) \<Rightarrow> Inr (toISOString lib t))"

subsection \<open>Statistics\<close>

definition estimateSize :: "Feed \<Rightarrow> int" where
  "estimateSize f =
     (let baseSize = 1000; averageItemSize = 2000
      in baseSize + int (length (items f)) * averageItemSize)"

definition shouldSplit :: "Feed \<Rightarrow> bool" where
  "shouldSplit f =
     (int (length (items f)) > maxItems (config f) \<or> estimateSize f > maxFileSize (config f))"

text \<open>
  \<open>getStats\<close> without \<open>averagePriority\<close>, which is a quotient of floating-point sums.
\<close>

record FeedStats =
  totalItems :: nat
  totalImages :: nat
  totalVideos :: nat
  totalTranslations :: nat
  lastModified :: string
  sizeEstimate :: int

definition length_or_0 :: "'a list option \<Rightarrow> nat" where
  "length_or_0 xs = (case xs of None \<Rightarrow> 0 | Some l \<Rightarrow> length l)"

definition getStats :: "Feed \<Rightarrow> FeedStats" where
  "getStats f =
     \<lparr>totalItems = length (items f),
      totalImages = foldl (\<lambda>sum item. sum + length_or_0 (images (data item))) 0 (items f),
      totalVideos = foldl (\<lambda>sum item. sum + length_or_0 (videos (data item))) 0 (items f),
      totalTranslations =
        foldl (\<lambda>sum item. sum + length_or_0 (item_translations (data item))) 0 (items f),
      lastModified = lastBuildDate f,
      sizeEstimate = estimateSize f\<rparr>"

section \<open>XML helpers (utils/XmlHelper.ts)\<close>

text \<open>\<open>text.replace(/c/g, r)\<close> for a single character \<open>c\<close>.\<close>

definition replace_all :: "char \<Rightarrow> string \<Rightarrow> string \<Rightarrow> string" where
  "replace_all c r s = concat (map (\<lambda>x. if x = c then r else [x]) s)"

definition escapeXml :: "string \<Rightarrow> string" where
  \<open>escapeXml txt =
     replace_all (CHR 0x27) ''&#39;''
       (replace_all (CHR 0x22) ''&quot;''
          (replace_all (CHR ''>'') ''&gt;''
             (replace_all (CHR ''<'') ''&lt;''
                (replace_all (CHR ''&'') ''&amp;'' txt))))\<close>

text \<open>
  \<open>xml.split(/(<[^>]*>)/)\<close>: the pieces of text between the matches, with every match
  between them. A match starts at the first \<open><\<close> that has a \<open>>\<close> somewhere after it and
  ends at the first such \<open>>\<close>. The first argument is the text read since the last match.
\<close>

function split_tags :: "string \<Rightarrow> string \<Rightarrow> string list" where
  "split_tags acc [] = [acc]"
| "split_tags acc (c # cs) =
     (if c = CHR ''<'' \<and> CHR ''>'' \<in> set cs then
        acc # (c # takeWhile (\<lambda>x. x \<noteq> CHR ''>'') cs @ ''>'') #
        split_tags [] (tl (dropWhile (\<lambda>x. x \<noteq> CHR ''>'') cs))
      else split_tags (acc @ [c]) cs)"
  by pat_completeness auto

termination
proof (relation "measure (\<lambda>(acc, s). length s)")
  show "wf (measure (\<lambda>(acc, s). length s))"
    by simp
next
  fix acc :: string and c :: char and cs :: string
  have "length (tl (dropWhile (\<lambda>x. x \<noteq> CHR ''>'') cs)) \<le> length cs"
    using length_dropWhile_le [of "\<lambda>x. x \<noteq> CHR ''>''" cs] by simp
  then show "(([], tl (dropWhile (\<lambda>x. x \<noteq> CHR ''>'') cs)), acc, c # cs)
      \<in> measure (\<lambda>(acc, s). length s)"
    by simp
next
  fix acc :: string and c :: char and cs :: string
  show "((acc @ [c], cs), acc, c # cs) \<in> measure (\<lambda>(acc, s). length s)"
    by simp
qed

text \<open>\<open>indent.repeat(level)\<close> throws a \<open>RangeError\<close> on a negative count.\<close>

definition repeat :: "string \<Rightarrow> int \<Rightarrow> error + string" where
  "repeat s n =
     (if n < 0 then Inl (RangeError (''Invalid count value: -'' @ string_of_nat (nat (- n))))
      else Inr (concat (replicate (nat n) s)))"

text \<open>
  The loop of \<open>formatXml\<close> over the tokens. \<open>prev\<close> is \<open>tokens[i - 1]\<close> (the empty string
  before the first token), \<open>raw\<close> is \<open>tokens[i]\<close> and \<open>rest\<close> the tokens after it.
\<close>

fun formatXml_loop :: "string \<Rightarrow> string \<Rightarrow> int \<Rightarrow> string \<Rightarrow> string list \<Rightarrow> error + string"
  where
  "formatXml_loop indent prev level result [] = Inr result"
| "formatXml_loop indent prev level result (raw # rest) =
     (let token = trim raw;
          nextToken = (case rest of [] \<Rightarrow> [] | n # _ \<Rightarrow> trim n);
          tokenAfter = (case rest of _ # a # _ \<Rightarrow> trim a | _ \<Rightarrow> [])
      in
        if token = [] then formatXml_loop indent raw level result rest
        else if startsWith token ''<?xml'' then
          formatXml_loop indent raw level (result @ token @ ''\<newline>'') rest
        else if startsWith token ''</'' then
          (let prevToken = trim prev;
               isInlineContent = (prevToken \<noteq> [] \<and> \<not> startsWith prevToken ''<'')
           in
             case (if \<not> isInlineContent then repeat indent (level - 1) else Inr []) of
               Inl e \<Rightarrow> Inl e
             | Inr pad \<Rightarrow>
                 formatXml_loop indent raw (level - 1)
                   (result @ pad @ token @ (if rest \<noteq> [] then ''\<newline>'' else [])) rest)
        else if startsWith token ''<'' \<and> \<not> endsWith token ''/>'' then
          (case repeat indent level of
             Inl e \<Rightarrow> Inl e
           | Inr pad \<Rightarrow>
               (let isSimpleInline =
                      (nextToken \<noteq> [] \<and> \<not> startsWith nextToken ''<'' \<and>
                       startsWith tokenAfter ''</'')
                in
                  formatXml_loop indent raw (level + 1)
                    (result @ pad @ token @ (if \<not> isSimpleInline then ''\<newline>'' else []))
                    rest))
        else if endsWith token ''/>'' then
          (case repeat indent level of
             Inl e \<Rightarrow> Inl e
           | Inr pad \<Rightarrow> formatXml_loop indent raw level (result @ pad @ token @ ''\<newline>'') rest)
        else if startsWith nextToken ''</'' then
          formatXml_loop indent raw level (result @ token) rest
        else
          (case repeat indent level of
             Inl e \<Rightarrow> Inl e
           | Inr pad \<Rightarrow> formatXml_loop indent raw level (result @ pad @ token @ ''\<newline>'') rest))"

definition formatXml :: "string \<Rightarrow> error + string" where
  "formatXml xml =
     (case formatXml_loop ''  '' [] 0 [] (split_tags [] xml) of
        Inl e \<Rightarrow> Inl e
      | Inr result \<Rightarrow> Inr (trim result))"

section \<open>Date formatting (utils/DateHelper.ts)\<close>

text \<open>
  \<open>formatDate\<close> on the two kinds of value the feed passes. A falsy value (the empty
  string) is the one case that reads the clock.
\<close>

definition formatDate :: "DateLib \<Rightarrow> instant \<Rightarrow> pubdate \<Rightarrow> error + string" where
  "formatDate lib now d =
     (case d of
        DateString s \<Rightarrow>
          if s = [] then Inr (toISOString lib now)
          else
            (case Date_parse lib s of
               None \<Rightarrow> Inl (Error (''Invalid date string: '' @ s))
             | Some t \<Rightarrow> Inr (toISOString lib t))
      | DateObject None \<Rightarrow> Inl (Error ''Invalid Date object'')
      | DateObject (Some t) \<Rightarrow> Inr (toISOString lib t))"

text \<open>\<open>toUTCString\<close> of an Invalid Date is the text \<open>Invalid Date\<close>.\<close>

definition formatRssDate :: "DateLib \<Rightarrow> instant \<Rightarrow> pubdate \<Rightarrow> error + string" where
  "formatRssDate lib now d =
     (case formatDate lib now d of
        Inl e \<Rightarrow> Inl e
      | Inr isoDate \<Rightarrow>
          Inr (case Date_parse lib isoDate of
                 None \<Rightarrow> ''Invalid Date''
               | Some t \<Rightarrow> toUTCString lib t))"

definition formatAtomDate :: "DateLib \<Rightarrow> instant \<Rightarrow> pubdate \<Rightarrow> error + string" where
  "formatAtomDate lib now d = formatDate lib now d"

section \<open>Serialization (core/Feed.ts)\<close>

text \<open>Truthiness of an optional string, an optional number and a \<open>Date | string\<close>.\<close>

definition truthy :: "string option \<Rightarrow> bool" where
  "truthy s = (case s of None \<Rightarrow> False | Some t \<Rightarrow> t \<noteq> [])"

definition truthy_nat :: "nat option \<Rightarrow> bool" where
  "truthy_nat n = (case n of None \<Rightarrow> False | Some k \<Rightarrow> k \<noteq> 0)"

fun truthy_date :: "pubdate \<Rightarrow> bool" where
  "truthy_date (DateString s) = (s \<noteq> [])"
| "truthy_date (DateObject d) = True"

definition hasMedia :: "Feed \<Rightarrow> bool" where
  "hasMedia f =
     list_ex
       (\<lambda>item.
          (case images (data item) of None \<Rightarrow> False | Some l \<Rightarrow> length l > 0) \<or>
          (case videos (data item) of None \<Rightarrow> False | Some l \<Rightarrow> length l > 0))
       (items f)"

definition hasGoogleNews :: "Feed \<Rightarrow> bool" where
  "hasGoogleNews f = list_ex (\<lambda>item. news (data item) \<noteq> None) (items f)"

text \<open>\<open>item.category\<close> as the array the two renderers loop over (nothing when falsy).\<close>

definition categories :: "category option \<Rightarrow> string list" where
  "categories c =
     (case c of
        None \<Rightarrow> []
      | Some (Single s) \<Rightarrow> if s = [] then [] else [s]
      | Some (Many cs) \<Rightarrow> cs)"

text \<open>Lines 457 to 459: the \<open>pubDate\<close> element of an RSS item, or nothing.\<close>

definition rssPubDate :: "DateLib \<Rightarrow> instant \<Rightarrow> FeedItemData \<Rightarrow> error + string" where
  "rssPubDate lib now item =
     (case pubdate item of
        None \<Rightarrow> Inr []
      | Some d \<Rightarrow>
          if truthy_date d then
            (case formatRssDate lib now d of
               Inl e \<Rightarrow> Inl e
             | Inr s \<Rightarrow> Inr (''      <pubDate>'' @ s @ ''</pubDate>\<newline>''))
          else Inr [])"

definition rssEnclosure :: "EnclosureData option \<Rightarrow> string" where
  \<open>rssEnclosure e =
     (case e of
        None \<Rightarrow> []
      | Some enc \<Rightarrow>
          ''      <enclosure url="'' @ escapeXml (enc_url enc) @ ''" type="'' @
          escapeXml (enc_type enc) @ ''"'' @
          (if truthy_nat (enc_length enc) then
             '' length="'' @ string_of_nat (the (enc_length enc)) @ ''"''
           else []) @
          ''/>\<newline>'')\<close>

definition rssImage :: "ImageData \<Rightarrow> string" where
  \<open>rssImage img =
     ''      <media:content url="'' @ escapeXml (img_url img) @ ''"'' @
     (if truthy (img_type img) then '' type="'' @ escapeXml (the (img_type img)) @ ''"'' else []) @
     (if truthy_nat (img_width img) then
        '' width="'' @ string_of_nat (the (img_width img)) @ ''"''
      else []) @
     (if truthy_nat (img_height img) then
        '' height="'' @ string_of_nat (the (img_height img)) @ ''"''
      else []) @
     ''/>\<newline>''\<close>

definition rssVideo :: "VideoData \<Rightarrow> string" where
  \<open>rssVideo video =
     ''      <media:content url="'' @ escapeXml (content_url video) @ ''" type="video"'' @
     (if truthy_nat (duration video) then
        '' duration="'' @ string_of_nat (the (duration video)) @ ''"''
      else []) @
     ''>\<newline>'' @
     ''        <media:thumbnail url="'' @ escapeXml (thumbnail_url video) @ ''"/>\<newline>'' @
     ''      </media:content>\<newline>''\<close>

definition rssNewsKeywords :: "NewsData option \<Rightarrow> string" where
  "rssNewsKeywords n =
     (case n of
        None \<Rightarrow> []
      | Some nd \<Rightarrow>
          if truthy (news_keywords nd) then
            ''      <news:keywords>'' @ escapeXml (the (news_keywords nd)) @
            ''</news:keywords>\<newline>''
          else [])"

definition generateRSSItem :: "DateLib \<Rightarrow> instant \<Rightarrow> FeedItemData \<Rightarrow> error + string" where
  "generateRSSItem lib now item =
     (case rssPubDate lib now item of
        Inl e \<Rightarrow> Inl e
      | Inr pubDateElement \<Rightarrow>
          Inr (''    <item>\<newline>'' @
               ''      <title>'' @ escapeXml (title item) @ ''</title>\<newline>'' @
               ''      <link>'' @ escapeXml (link item) @ ''</link>\<newline>'' @
               ''      <description>'' @ escapeXml (description item) @
               ''</description>\<newline>'' @
               (if truthy (author item) then
                  ''      <author>'' @ escapeXml (the (author item)) @ ''</author>\<newline>''
                else []) @
               concat
                 (map (\<lambda>cat. ''      <category>'' @ escapeXml cat @ ''</category>\<newline>'')
                    (categories (category item))) @
               pubDateElement @
               ''      <guid>'' @
               escapeXml (case guid item of None \<Rightarrow> link item | Some g \<Rightarrow> g) @
               ''</guid>\<newline>'' @
               rssEnclosure (enclosure item) @
               concat (map rssImage (case images item of None \<Rightarrow> [] | Some l \<Rightarrow> l)) @
               concat (map rssVideo (case videos item of None \<Rightarrow> [] | Some l \<Rightarrow> l)) @
               rssNewsKeywords (news item) @
               ''    </item>\<newline>''))"

text \<open>
  \<open>for (const feedItem of this.items) out += generate(feedItem.data)\<close>: the first item
  whose rendering throws ends the loop.
\<close>

fun generateItems :: "(FeedItemData \<Rightarrow> error + string) \<Rightarrow> FeedItem list \<Rightarrow> error + string" where
  "generateItems g [] = Inr []"
| "generateItems g (feedItem # rest) =
     (case g (data feedItem) of
        Inl e \<Rightarrow> Inl e
      | Inr s \<Rightarrow> (case generateItems g rest of Inl e \<Rightarrow> Inl e | Inr r \<Rightarrow> Inr (s @ r)))"

definition xmlDeclaration :: string where
  \<open>xmlDeclaration = ''<?xml version="1.0" encoding="UTF-8"?>''\<close>

text \<open>Lines 510 to 518: the start tag of the root element before its closing \<open>>\<close>.\<close>

definition rssRoot :: "Feed \<Rightarrow> string" where
  \<open>rssRoot f =
     ''<rss version="2.0"'' @
     (if hasMedia f then '' xmlns:media="http://search.yahoo.com/mrss/"'' else []) @
     (if hasGoogleNews f then '' xmlns:news="http://www.google.com/schemas/sitemap-news/0.9"''
      else [])\<close>

definition generatorVersion :: "Feed \<Rightarrow> string" where
  "generatorVersion f = (if version (config f) = [] then ''1.0.0'' else version (config f))"

text \<open>The markup \<open>generateRSS\<close> concatenates, before \<open>formatXml\<close>.\<close>

definition rssMarkup :: "DateLib \<Rightarrow> instant \<Rightarrow> Feed \<Rightarrow> error + string" where
  "rssMarkup lib now f =
     (case formatRssDate lib now (DateString (lastBuildDate f)) of
        Inl e \<Rightarrow> Inl e
      | Inr built \<Rightarrow>
          (case generateItems (generateRSSItem lib now) (items f) of
             Inl e \<Rightarrow> Inl e
           | Inr rssItems \<Rightarrow>
               Inr (rssRoot f @ ''>\<newline>'' @
                    ''  <channel>\<newline>'' @
                    ''    <title>'' @ escapeXml (feed_title f) @ ''</title>\<newline>'' @
                    ''    <link>'' @ escapeXml (feed_link f) @ ''</link>\<newline>'' @
                    ''    <description>'' @ escapeXml (feed_description f) @
                    ''</description>\<newline>'' @
                    (if feed_language f \<noteq> [] then
                       ''    <language>'' @ escapeXml (feed_language f) @ ''</language>\<newline>''
                     else []) @
                    (if managingEditor f \<noteq> [] then
                       ''    <managingEditor>'' @ escapeXml (managingEditor f) @
                       ''</managingEditor>\<newline>''
                     else []) @
                    (if webMaster f \<noteq> [] then
                       ''    <webMaster>'' @ escapeXml (webMaster f) @ ''</webMaster>\<newline>''
                     else []) @
                    (if feed_category f \<noteq> [] then
                       ''    <category>'' @ escapeXml (feed_category f) @ ''</category>\<newline>''
                     else []) @
                    (if copyright f \<noteq> [] then
                       ''    <copyright>'' @ escapeXml (copyright f) @ ''</copyright>\<newline>''
                     else []) @
                    ''    <lastBuildDate>'' @ built @ ''</lastBuildDate>\<newline>'' @
                    ''    <generator>@rumenx/feed v'' @ generatorVersion f @
                    ''</generator>\<newline>'' @
                    rssItems @
                    ''  </channel>\<newline>'' @
                    ''</rss>'')))"

definition generateRSS :: "DateLib \<Rightarrow> instant \<Rightarrow> Feed \<Rightarrow> error + string" where
  "generateRSS lib now f =
     (case rssMarkup lib now f of
        Inl e \<Rightarrow> Inl e
      | Inr rss \<Rightarrow> formatXml (xmlDeclaration @ ''\<newline>'' @ rss))"

text \<open>Lines 616 to 618: the \<open>updated\<close> element of an Atom entry, or nothing.\<close>

definition atomUpdated :: "DateLib \<Rightarrow> instant \<Rightarrow> FeedItemData \<Rightarrow> error + string" where
  "atomUpdated lib now item =
     (case pubdate item of
        None \<Rightarrow> Inr []
      | Some d \<Rightarrow>
          if truthy_date d then
            (case formatAtomDate lib now d of
               Inl e \<Rightarrow> Inl e
             | Inr s \<Rightarrow> Inr (''    <updated>'' @ s @ ''</updated>\<newline>''))
          else Inr [])"

definition generateAtomEntry :: "DateLib \<Rightarrow> instant \<Rightarrow> FeedItemData \<Rightarrow> error + string" where
  \<open>generateAtomEntry lib now item =
     (case atomUpdated lib now item of
        Inl e \<Rightarrow> Inl e
      | Inr updatedElement \<Rightarrow>
          Inr (''  <entry>\<newline>'' @
               ''    <title>'' @ escapeXml (title item) @ ''</title>\<newline>'' @
               ''    <link href="'' @ escapeXml (link item) @ ''"/>\<newline>'' @
               ''    <id>'' @
               escapeXml (case guid item of None \<Rightarrow> link item | Some g \<Rightarrow> g) @
               ''</id>\<newline>'' @
               updatedElement @
               ''    <summary>'' @ escapeXml (description item) @ ''</summary>\<newline>'' @
               (if truthy (author item) then
                  ''    <author>\<newline>'' @
                  ''      <name>'' @ escapeXml (the (author item)) @ ''</name>\<newline>'' @
                  ''    </author>\<newline>''
                else []) @
               concat
                 (map (\<lambda>cat. ''    <category term="'' @ escapeXml cat @ ''"/>\<newline>'')
                    (categories (category item))) @
               ''  </entry>\<newline>''))\<close>

definition atomMarkup :: "DateLib \<Rightarrow> instant \<Rightarrow> Feed \<Rightarrow> error + string" where
  \<open>atomMarkup lib now f =
     (case formatAtomDate lib now (DateString (lastBuildDate f)) of
        Inl e \<Rightarrow> Inl e
      | Inr built \<Rightarrow>
          (case generateItems (generateAtomEntry lib now) (items f) of
             Inl e \<Rightarrow> Inl e
           | Inr entries \<Rightarrow>
               Inr (''<feed xmlns="http://www.w3.org/2005/Atom">\<newline>'' @
                    ''  <title>'' @ escapeXml (feed_title f) @ ''</title>\<newline>'' @
                    ''  <link href="'' @ escapeXml (feed_link f) @ ''"/>\<newline>'' @
                    ''  <id>'' @ escapeXml (feed_link f) @ ''</id>\<newline>'' @
                    ''  <updated>'' @ built @ ''</updated>\<newline>'' @
                    (if feed_description f \<noteq> [] then
                       ''  <subtitle>'' @ escapeXml (feed_description f) @ ''</subtitle>\<newline>''
                     else []) @
                    (if managingEditor f \<noteq> [] then
                       ''  <author>\<newline>'' @
                       ''    <email>'' @ escapeXml (managingEditor f) @ ''</email>\<newline>'' @
                       ''  </author>\<newline>''
                     else []) @
                    (if copyright f \<noteq> [] then
                       ''  <rights>'' @ escapeXml (copyright f) @ ''</rights>\<newline>''
                     else []) @
                    ''  <generator>@rumenx/feed v'' @ generatorVersion f @
                    ''</generator>\<newline>'' @
                    entries @
                    ''</feed>'')))\<close>

definition generateAtom :: "DateLib \<Rightarrow> instant \<Rightarrow> Feed \<Rightarrow> error + string" where
  "generateAtom lib now f =
     (case atomMarkup lib now f of
        Inl e \<Rightarrow> Inl e
      | Inr atom \<Rightarrow> formatXml (xmlDeclaration @ ''\<newline>'' @ atom))"

text \<open>
  \<open>toXML\<close> returns the outcome together with the aggregate as the call leaves it; no
  statement of the two renderers assigns to a field.
\<close>

definition toXML :: "DateLib \<Rightarrow> instant \<Rightarrow> string \<Rightarrow> Feed \<Rightarrow> (error + string) \<times> Feed" where
  "toXML lib now format f =
     (if format = ''rss'' then (generateRSS lib now f, f)
      else if format = ''atom'' then (generateAtom lib now f, f)
      else (Inl (Error (''Unsupported feed format: '' @ format)), f))"

text \<open>\<open>haystack.includes(needle)\<close>\<close>

fun string_includes :: "string \<Rightarrow> string \<Rightarrow> bool" where
  "string_includes [] p = (p = [])"
| "string_includes (c # cs) p = (startsWith (c # cs) p \<or> string_includes cs p)"

section \<open>Notions used in the statements\<close>

text \<open>
  The errors one check contributes, as a list: the reading of the rule list against
  which \<open>validateFeedItem\<close> is compared.
\<close>

fun opt_list :: "'a option \<Rightarrow> 'a list" where
  "opt_list None = []"
| "opt_list (Some e) = [e]"

definition image_errors :: "string list \<Rightarrow> nat \<times> ImageData \<Rightarrow> ValidationError list" where
  "image_errors doms p =
     opt_list
       (validateUrl (img_url (snd p)) (''images['' @ string_of_nat (fst p) @ ''].url'')
          doms)"

definition video_errors :: "string list \<Rightarrow> nat \<times> VideoData \<Rightarrow> ValidationError list" where
  "video_errors doms p =
     opt_list
       (validateUrl (thumbnail_url (snd p))
          (''videos['' @ string_of_nat (fst p) @ ''].thumbnail_url'') doms) @
     opt_list
       (validateUrl (content_url (snd p))
          (''videos['' @ string_of_nat (fst p) @ ''].content_url'') doms) @
     opt_list
       (validateRequiredString (vid_title (snd p))
          (''videos['' @ string_of_nat (fst p) @ ''].title'')) @
     opt_list
       (validateRequiredString (vid_description (snd p))
          (''videos['' @ string_of_nat (fst p) @ ''].description''))"

definition translation_errors ::
  "string list \<Rightarrow> nat \<times> TranslationData \<Rightarrow> ValidationError list" where
  "translation_errors doms p =
     opt_list
       (validateRequiredString (tr_language (snd p))
          (''translations['' @ string_of_nat (fst p) @ ''].language'')) @
     (if isValidLanguageCode (tr_language (snd p)) then []
      else
        [\<lparr>field = ''translations['' @ string_of_nat (fst p) @ ''].language'',
          error_type = ''invalid_language'',
          message = ''language must be a valid RFC 3066 language code'',
          error_value = VString (tr_language (snd p))\<rparr>]) @
     opt_list
       (validateUrl (tr_url (snd p)) (''translations['' @ string_of_nat (fst p) @ ''].url'')
          doms)"

definition each_indexed :: "(nat \<times> 'a \<Rightarrow> 'b list) \<Rightarrow> 'a list option \<Rightarrow> 'b list" where
  "each_indexed g xs = (case xs of None \<Rightarrow> [] | Some l \<Rightarrow> concat (map g (enumerate 0 l)))"

text \<open>The guard of \<open>addItem\<close> (lines 191 to 196): the item data that do not make it throw.\<close>

definition accepts :: "Feed \<Rightarrow> FeedItemData \<Rightarrow> bool" where
  "accepts f d =
     (if validate (config f) then validateFeedItem d (allowedDomains (config f)) = []
      else True)"

definition wrap :: "Feed \<Rightarrow> FeedItemData \<Rightarrow> FeedItem" where
  "wrap f d = \<lparr>data = processItemData f d\<rparr>"

text \<open>
  \<open>opens_with c s\<close>: the text \<open>s\<close> holds a \<open><\<close> that is followed by the character \<open>c\<close>, or
  ends in a \<open><\<close>. Markup without it has no tag whose name starts with \<open>c\<close>.
\<close>

fun opens_with :: "char \<Rightarrow> string \<Rightarrow> bool" where
  "opens_with c [] = False"
| "opens_with c [x] = (x = CHR ''<'')"
| "opens_with c (x # y # ys) = ((x = CHR ''<'' \<and> y = c) \<or> opens_with c (y # ys))"

section \<open>Concrete inputs\<close>

text \<open>
  A stand-in for the built-in \<open>Date\<close>, used only where the model is evaluated at a
  concrete input: it prints an instant as its count of milliseconds after \<open>@\<close> and
  reads that form back.
\<close>

definition digit_of_char :: "char \<Rightarrow> nat option" where
  "digit_of_char c =
     (let n = (of_char c :: nat) in if 48 \<le> n \<and> n \<le> 57 then Some (n - 48) else None)"

fun nat_of_digits :: "nat \<Rightarrow> string \<Rightarrow> nat option" where
  "nat_of_digits acc [] = Some acc"
| "nat_of_digits acc (c # cs) =
     (case digit_of_char c of None \<Rightarrow> None | Some d \<Rightarrow> nat_of_digits (10 * acc + d) cs)"

definition sample_Date :: DateLib where
  "sample_Date =
     \<lparr>Date_parse =
        (\<lambda>s. case s of
                [] \<Rightarrow> None
              | c # cs \<Rightarrow>
                  if c = CHR ''@'' \<and> cs \<noteq> [] then map_option int (nat_of_digits 0 cs)
                  else None),
      toISOString = (\<lambda>t. ''@'' @ string_of_nat (nat t)),
      toUTCString = (\<lambda>t. ''utc '' @ string_of_nat (nat t))\<rparr>"

text \<open>An item with the three required fields and nothing else.\<close>

definition plain_item :: "string \<Rightarrow> string \<Rightarrow> string \<Rightarrow> FeedItemData" where
  "plain_item t d l =
     \<lparr>title = t, description = d, link = l, author = None, pubdate = None, guid = None,
      category = None, enclosure = None, images = None, videos = None,
      item_translations = None, news = None, priority = None, changefreq = None\<rparr>"

definition plain_image :: "string \<Rightarrow> ImageData" where
  "plain_image u =
     \<lparr>img_url = u, img_title = None, img_caption = None, img_type = None, img_width = None,
      img_height = None, img_license = None, img_geoLocation = None\<rparr>"

definition plain_video :: "string \<Rightarrow> string \<Rightarrow> VideoData" where
  "plain_video thumb content =
     \<lparr>thumbnail_url = thumb, vid_title = ''V'', vid_description = ''W'', content_url = content,
      duration = None, rating = None, view_count = None, publication_date = None,
      family_friendly = None, tags = None\<rparr>"

definition validating_feed :: Feed where
  "validating_feed = Feed_constructor sample_Date 0 (empty_config\<lparr>cfg_validate := Some True\<rparr>)"

definition two_items :: "FeedItemData list" where
  "two_items =
     [plain_item ''A'' ''B'' ''https://ex.com/a'', plain_item ''C'' ''D'' ''https://ex.com/c'']"

definition small_feed :: Feed where
  "small_feed =
     snd (addItems sample_Date int two_items
            (Feed_constructor sample_Date 0
               (empty_config\<lparr>cfg_maxItems := Some 2, cfg_maxFileSize := Some 5000\<rparr>)))"

definition based_feed :: Feed where
  "based_feed =
     Feed_constructor sample_Date 0 (empty_config\<lparr>cfg_baseUrl := Some ''https://example.com/''\<rparr>)"

text \<open>
  Scenario (a): title \<open>T\<close>, description \<open>D\<close>, link \<open>https://ex.com\<close>, and one item added
  without a \<open>pubdate\<close> when the clock shows 5. Scenario (b) adds an item with an image.
\<close>

definition scenario_a :: Feed where
  "scenario_a =
     snd (addItem sample_Date 5 (plain_item ''A'' ''B'' ''https://ex.com/a'')
            (setLink ''https://ex.com''
               (setDescription ''D''
                  (setTitle ''T'' (Feed_constructor sample_Date 0 empty_config)))))"

definition scenario_b :: Feed where
  "scenario_b =
     snd (addItem sample_Date 6
            ((plain_item ''P'' ''Q'' ''https://ex.com/p'')
               \<lparr>images := Some [plain_image ''https://ex.com/i.png'']\<rparr>)
            scenario_a)"

section \<open>Properties of the validator\<close>

lemma push_if_opt_list: "push_if es e = es @ opt_list e"
  by (cases e) simp_all

lemma validate_images_append:
  "validate_images doms k imgs errors =
     errors @ concat (map (image_errors doms) (enumerate k imgs))"
  by (induction imgs arbitrary: k errors)
    (simp_all add: image_errors_def push_if_opt_list)

lemma validate_videos_append:
  "validate_videos doms k vids errors =
     errors @ concat (map (video_errors doms) (enumerate k vids))"
proof (induction vids arbitrary: k errors)
  case Nil
  then show ?case by simp
next
  case (Cons v vids)
  show ?case
    by (simp add: Cons.IH Let_def push_if_opt_list video_errors_def)
qed

lemma validate_translations_append:
  "validate_translations doms k trs errors =
     errors @ concat (map (translation_errors doms) (enumerate k trs))"
proof (induction trs arbitrary: k errors)
  case Nil
  then show ?case by simp
next
  case (Cons t trs)
  show ?case
    by (simp add: Cons.IH Let_def push_if_opt_list translation_errors_def)
qed

lemma validateFeedItem_concat:
  "validateFeedItem item doms =
     opt_list (validateRequiredString (title item) ''title'') @
     opt_list (validateRequiredString (description item) ''description'') @
     opt_list (validateUrl (link item) ''link'' doms) @
     (case author item of None \<Rightarrow> [] | Some a \<Rightarrow> opt_list (validateRequiredString a ''author'')) @
     (case priority item of
        None \<Rightarrow> []
      | Some p \<Rightarrow>
          if isValidPriority p then []
          else
            [\<lparr>field = ''priority'', error_type = ''invalid_range'',
              message = ''priority must be a number between 0.0 and 1.0'',
              error_value = VNumber p\<rparr>]) @
     each_indexed (image_errors doms) (images item) @
     each_indexed (video_errors doms) (videos item) @
     each_indexed (translation_errors doms) (item_translations item)"
  by (simp add: validateFeedItem_def Let_def push_if_opt_list each_indexed_def
      validate_images_append validate_videos_append validate_translations_append
      split: option.splits)

lemma validateUrl_first_failure:
  "validateUrl url fieldName doms =
     (if trim url = [] then
        Some \<lparr>field = fieldName, error_type = ''required'',
              message = fieldName @ '' is required and must be a non-empty string'',
              error_value = VString url\<rparr>
      else if \<not> isValidUrl url then
        Some \<lparr>field = fieldName, error_type = ''invalid_url'',
              message = fieldName @ '' must be a valid HTTP or HTTPS URL'',
              error_value = VString url\<rparr>
      else if \<not> isAllowedDomain url doms then
        Some \<lparr>field = fieldName, error_type = ''domain_not_allowed'',
              message = fieldName @ '' domain is not in the allowed domains list'',
              error_value = VString url\<rparr>
      else None)"
  by (simp add: validateUrl_def validateRequiredString_def)

lemma trim_Nil: "trim [] = []"
  by (simp add: trim_def)

lemma trim_D: "trim ''D'' = ''D''"
  by (simp add: trim_def isWhiteSpace_def)

lemma trim_not_a_url: "trim ''not-a-url'' = ''not-a-url''"
  by (simp add: trim_def isWhiteSpace_def)

lemma not_a_url_invalid: "\<not> isValidUrl ''not-a-url''"
  by (simp add: isValidUrl_def trim_not_a_url urlPattern_test_def matchScheme_def
      toLowerCase_def toLowerChar_def)

lemma scenario_c_errors:
  "validateFeedItem (plain_item [] ''D'' ''not-a-url'') doms =
     [\<lparr>field = ''title'', error_type = ''required'',
       message = ''title is required and must be a non-empty string'',
       error_value = VString []\<rparr>,
      \<lparr>field = ''link'', error_type = ''invalid_url'',
       message = ''link must be a valid HTTP or HTTPS URL'',
       error_value = VString ''not-a-url''\<rparr>]"
  by (simp add: validateFeedItem_def plain_item_def validateRequiredString_def validateUrl_def
      trim_Nil trim_D trim_not_a_url not_a_url_invalid)

text \<open>
  C1 (as amended). \<open>validateFeedItem\<close> never stops at a failing field: for every item and
  every list of allowed domains it returns, in one list, the errors of every check in the
  fixed order title, description, link, author if present, priority if present, then for
  each index the image URL, the four video checks and the three translation checks. A URL
  check (required, then URL grammar, then domain) reports the first stage that fails and
  nothing after it, so one URL field gives at most one error. The item with title \<open>""\<close>,
  description \<open>"D"\<close> and link \<open>"not-a-url"\<close> gives exactly the two errors
  \<open>title\<close>/\<open>required\<close> and \<open>link\<close>/\<open>invalid_url\<close>, whatever the allowed domains.
\<close>

theorem validateFeedItem_all_checks_in_order:
  "validateFeedItem item doms =
     opt_list (validateRequiredString (title item) ''title'') @
     opt_list (validateRequiredString (description item) ''description'') @
     opt_list (validateUrl (link item) ''link'' doms) @
     (case author item of None \<Rightarrow> [] | Some a \<Rightarrow> opt_list (validateRequiredString a ''author'')) @
     (case priority item of
        None \<Rightarrow> []
      | Some p \<Rightarrow>
          if isValidPriority p then []
          else
            [\<lparr>field = ''priority'', error_type = ''invalid_range'',
              message = ''priority must be a number between 0.0 and 1.0'',
              error_value = VNumber p\<rparr>]) @
     each_indexed (image_errors doms) (images item) @
     each_indexed (video_errors doms) (videos item) @
     each_indexed (translation_errors doms) (item_translations item)
   \<and> validateUrl url fieldName doms =
     (if trim url = [] then
        Some \<lparr>field = fieldName, error_type = ''required'',
              message = fieldName @ '' is required and must be a non-empty string'',
              error_value = VString url\<rparr>
      else if \<not> isValidUrl url then
        Some \<lparr>field = fieldName, error_type = ''invalid_url'',
              message = fieldName @ '' must be a valid HTTP or HTTPS URL'',
              error_value = VString url\<rparr>
      else if \<not> isAllowedDomain url doms then
        Some \<lparr>field = fieldName, error_type = ''domain_not_allowed'',
              message = fieldName @ '' domain is not in the allowed domains list'',
              error_value = VString url\<rparr>
      else None)
   \<and> length (opt_list (validateUrl url fieldName doms)) \<le> 1
   \<and> map (\<lambda>e. (field e, error_type e))
         (validateFeedItem (plain_item [] ''D'' ''not-a-url'') doms) =
       [(''title'', ''required''), (''link'', ''invalid_url'')]"
proof -
  have "length (opt_list (validateUrl url fieldName doms)) \<le> 1"
    by (cases "validateUrl url fieldName doms") simp_all
  then show ?thesis
    using validateFeedItem_concat [of item doms] validateUrl_first_failure [of url fieldName doms]
    by (simp only: scenario_c_errors) simp
qed

text \<open>
  The claim as stated fails where one URL field breaks two rules. The link
  \<open>https://blocked.com/a b\<close> is a non-empty string, does not match the URL grammar (it
  holds a space) and its host \<open>blocked.com\<close> is not in the allowed list \<open>example.com\<close>;
  the validator returns the \<open>invalid_url\<close> error alone and never evaluates the domain
  rule. The same holds for the claim's own example item once a domain list is given.
\<close>

theorem validateFeedItem_counterexample:
  "trim ''https://blocked.com/a b'' \<noteq> [] \<and>
   \<not> isValidUrl ''https://blocked.com/a b'' \<and>
   \<not> isAllowedDomain ''https://blocked.com/a b'' [''example.com''] \<and>
   validateFeedItem (plain_item ''A'' ''B'' ''https://blocked.com/a b'') [''example.com''] =
     [\<lparr>field = ''link'', error_type = ''invalid_url'',
       message = ''link must be a valid HTTP or HTTPS URL'',
       error_value = VString ''https://blocked.com/a b''\<rparr>] \<and>
   \<not> isAllowedDomain ''not-a-url'' [''example.com''] \<and>
   map error_type (validateFeedItem (plain_item [] ''D'' ''not-a-url'') [''example.com'']) =
     [''required'', ''invalid_url'']"
  by code_simp

section \<open>Properties of the aggregate\<close>

lemma resolveUrl_same_config: "config f = config g \<Longrightarrow> resolveUrl f u = resolveUrl g u"
  by (simp add: resolveUrl_def)

lemma processItemData_same_config:
  assumes "config f = config g"
  shows "processItemData f d = processItemData g d"
proof -
  have "resolveUrl f = resolveUrl g"
    by (rule ext) (simp add: resolveUrl_def assms)
  then show ?thesis
    by (simp add: processItemData_def assms)
qed

lemma addItem_accepted:
  "accepts f d \<Longrightarrow>
   addItem lib now d f =
     (Inr (), f\<lparr>items := items f @ [wrap f d], lastBuildDate := getCurrentDate lib now\<rparr>)"
  by (auto simp: addItem_def addItem_insert_def accepts_def wrap_def Let_def split: if_splits)

lemma addItem_rejected:
  "\<not> accepts f d \<Longrightarrow>
   addItem lib now d f =
     (Inl (Error (''Validation failed: '' @
        join '', '' (map message (validateFeedItem d (allowedDomains (config f)))))), f)"
  by (auto simp: addItem_def accepts_def Let_def split: if_splits)

lemma join_contains: "x \<in> set xs \<Longrightarrow> \<exists>a b. join sep xs = a @ x @ b"
proof (induction sep xs rule: join.induct)
  case (1 sep)
  then show ?case by simp
next
  case (2 sep y)
  then have "join sep [y] = [] @ x @ []" by simp
  then show ?case by blast
next
  case (3 sep y z zs)
  show ?case
  proof (cases "x = y")
    case True
    then have "join sep (y # z # zs) = [] @ x @ (sep @ join sep (z # zs))" by simp
    then show ?thesis by blast
  next
    case False
    with 3 obtain a b where "join sep (z # zs) = a @ x @ b" by auto
    then have "join sep (y # z # zs) = (y @ sep @ a) @ x @ b" by simp
    then show ?thesis by blast
  qed
qed

lemma accepts_same_config: "config g = config f \<Longrightarrow> accepts g = accepts f"
  by (rule ext) (simp add: accepts_def)

lemma wrap_same_config: "config g = config f \<Longrightarrow> wrap g = wrap f"
  by (rule ext) (simp add: wrap_def processItemData_same_config [of g f])

lemma addItems_from_accepted:
  "list_all (accepts f) ds \<Longrightarrow>
   addItems_from lib clock k ds f =
     (Inr (), f\<lparr>items := items f @ map (wrap f) ds,
               lastBuildDate :=
                 (if ds = [] then lastBuildDate f
                  else getCurrentDate lib (clock (k + length ds - 1)))\<rparr>)"
proof (induction ds arbitrary: f k)
  case Nil
  then show ?case by simp
next
  case (Cons d ds)
  let ?g = "f\<lparr>items := items f @ [wrap f d], lastBuildDate := getCurrentDate lib (clock k)\<rparr>"
  from Cons.prems have a: "addItem lib (clock k) d f = (Inr (), ?g)"
    by (simp add: addItem_accepted)
  have c: "config ?g = config f" by simp
  from Cons.prems have "list_all (accepts ?g) ds"
    by (simp add: accepts_same_config [OF c])
  from Cons.IH [OF this, of "k + 1"] show ?case
    by (simp add: a wrap_same_config [OF c])
qed

lemma addItems_from_rejected:
  "list_all (accepts f) pre \<Longrightarrow> \<not> accepts f bad \<Longrightarrow>
   addItems_from lib clock k (pre @ bad # post) f =
     (Inl (Error (''Validation failed: '' @
        join '', '' (map message (validateFeedItem bad (allowedDomains (config f)))))),
      f\<lparr>items := items f @ map (wrap f) pre,
        lastBuildDate :=
          (if pre = [] then lastBuildDate f
           else getCurrentDate lib (clock (k + length pre - 1)))\<rparr>)"
proof (induction pre arbitrary: f k)
  case Nil
  then show ?case by (simp add: addItem_rejected)
next
  case (Cons d ds)
  let ?g = "f\<lparr>items := items f @ [wrap f d], lastBuildDate := getCurrentDate lib (clock k)\<rparr>"
  from Cons.prems have a: "addItem lib (clock k) d f = (Inr (), ?g)"
    by (simp add: addItem_accepted)
  have c: "config ?g = config f" by simp
  from Cons.prems have "list_all (accepts ?g) ds" "\<not> accepts ?g bad"
    by (simp_all add: accepts_same_config [OF c])
  from Cons.IH [OF this, of "k + 1"] show ?case
    by (simp add: a wrap_same_config [OF c])
qed

text \<open>
  The batch in general: the longest prefix of accepted items is inserted, and the first
  item that is not accepted, if there is one, throws.
\<close>

lemma addItems_from_prefix:
  "addItems_from lib clock k ds f =
     (case dropWhile (accepts f) ds of
        [] \<Rightarrow> Inr ()
      | bad # post \<Rightarrow>
          Inl (Error (''Validation failed: '' @
            join '', '' (map message (validateFeedItem bad (allowedDomains (config f)))))),
      f\<lparr>items := items f @ map (wrap f) (takeWhile (accepts f) ds),
        lastBuildDate :=
          (if takeWhile (accepts f) ds = [] then lastBuildDate f
           else getCurrentDate lib (clock (k + length (takeWhile (accepts f) ds) - 1)))\<rparr>)"
proof (cases "dropWhile (accepts f) ds")
  case Nil
  then have all: "list_all (accepts f) ds"
    by (simp add: list_all_iff)
  then have tw: "takeWhile (accepts f) ds = ds"
    by (simp add: list_all_iff)
  show ?thesis
    by (simp add: Nil tw addItems_from_accepted [OF all])
next
  case (Cons bad post)
  define pre where "pre = takeWhile (accepts f) ds"
  have pre: "list_all (accepts f) pre"
    unfolding pre_def list_all_iff by (meson set_takeWhileD)
  have bad: "\<not> accepts f bad"
    using Cons hd_dropWhile [of "accepts f" ds] by auto
  have "takeWhile (accepts f) ds @ dropWhile (accepts f) ds = ds"
    by (rule takeWhile_dropWhile_id)
  then have ds: "ds = pre @ bad # post"
    unfolding pre_def Cons by (rule sym)
  have "addItems_from lib clock k ds f = addItems_from lib clock k (pre @ bad # post) f"
    by (rule arg_cong [where f = "\<lambda>l. addItems_from lib clock k l f", OF ds])
  then show ?thesis
    by (simp add: Cons pre_def [symmetric] addItems_from_rejected [OF pre bad])
qed

lemma startsWith_decomp: "startsWith s p \<Longrightarrow> \<exists>r. s = p @ r"
  by (metis append_take_drop_id startsWith_def)

lemma path_slash: "\<exists>t. (if startsWith u ''/'' then u else ''/'' @ u) = CHR ''/'' # t"
proof (cases "startsWith u ''/''")
  case True
  then obtain r where "u = ''/'' @ r" using startsWith_decomp by blast
  with True show ?thesis by simp
next
  case False
  then show ?thesis by simp
qed

lemma strip_keeps_scheme:
  assumes "p = ''http://'' \<or> p = ''https://''"
  shows "startsWith ((if endsWith (p @ r) ''/'' then butlast (p @ r) else p @ r) @ CHR ''/'' # t) p"
proof (cases "r = []")
  case True
  with assms show ?thesis by (auto simp: startsWith_def endsWith_def)
next
  case False
  with assms show ?thesis by (auto simp: startsWith_def butlast_append)
qed

lemma resolveUrl_stays_absolute:
  assumes b: "startsWith (baseUrl (config f)) ''http://'' \<or>
              startsWith (baseUrl (config f)) ''https://''"
  shows "startsWith (resolveUrl f u) ''http://'' \<or> startsWith (resolveUrl f u) ''https://''"
proof (cases "startsWith u ''http://'' \<or> startsWith u ''https://''")
  case True
  then show ?thesis by (auto simp: resolveUrl_def)
next
  case False
  obtain t where t: "(if startsWith u ''/'' then u else ''/'' @ u) = CHR ''/'' # t"
    using path_slash by blast
  from b obtain p r where p: "p = ''http://'' \<or> p = ''https://''"
    and r: "baseUrl (config f) = p @ r"
    using startsWith_decomp by blast
  have ne: "p \<noteq> []" using p by auto
  have "resolveUrl f u =
      (if endsWith (p @ r) ''/'' then butlast (p @ r) else p @ r) @ CHR ''/'' # t"
    using False ne t r by (simp add: resolveUrl_def Let_def)
  with strip_keeps_scheme [OF p, of r t] p show ?thesis by auto
qed

text \<open>
  C2. On a feed constructed with validation enabled: if \<open>validateFeedItem\<close> reports an
  error for the item data, \<open>addItem\<close> throws an error whose message is
  \<open>Validation failed:\<close> followed by the messages of all reported errors joined with a
  comma (so every one of them occurs in it), and the feed is as it was: no item added,
  \<open>lastBuildDate\<close> unchanged. If no error is reported, \<open>addItem\<close> appends exactly one
  item, the processed data, at the end and sets \<open>lastBuildDate\<close> to the current instant.
\<close>

theorem addItem_validating:
  assumes "validate (config f)"
  shows
    "(validateFeedItem d (allowedDomains (config f)) \<noteq> [] \<longrightarrow>
        addItem lib now d f =
          (Inl (Error (''Validation failed: '' @
             join '', '' (map message (validateFeedItem d (allowedDomains (config f)))))), f) \<and>
        (\<forall>e \<in> set (validateFeedItem d (allowedDomains (config f))).
           \<exists>a b. join '', '' (map message (validateFeedItem d (allowedDomains (config f)))) =
             a @ message e @ b)) \<and>
     (validateFeedItem d (allowedDomains (config f)) = [] \<longrightarrow>
        addItem lib now d f =
          (Inr (), f\<lparr>items := items f @ [\<lparr>data = processItemData f d\<rparr>],
                    lastBuildDate := getCurrentDate lib now\<rparr>))"
proof -
  have contains: "\<forall>e \<in> set (validateFeedItem d (allowedDomains (config f))).
      \<exists>a b. join '', '' (map message (validateFeedItem d (allowedDomains (config f)))) =
        a @ message e @ b"
    by (simp add: join_contains)
  have rejected: "validateFeedItem d (allowedDomains (config f)) \<noteq> [] \<Longrightarrow>
      addItem lib now d f =
        (Inl (Error (''Validation failed: '' @
           join '', '' (map message (validateFeedItem d (allowedDomains (config f)))))), f)"
    using assms by (simp add: addItem_rejected accepts_def)
  have accepted: "validateFeedItem d (allowedDomains (config f)) = [] \<Longrightarrow>
      addItem lib now d f =
        (Inr (), f\<lparr>items := items f @ [\<lparr>data = processItemData f d\<rparr>],
                  lastBuildDate := getCurrentDate lib now\<rparr>)"
    using addItem_accepted [of f d lib now] by (simp add: accepts_def wrap_def)
  from contains rejected accepted show ?thesis
    by blast
qed

theorem addItem_validating_witness:
  "validate (config validating_feed) \<and>
   validateFeedItem (plain_item [] ''D'' ''not-a-url'') (allowedDomains (config validating_feed))
     \<noteq> [] \<and>
   addItem sample_Date 7 (plain_item [] ''D'' ''not-a-url'') validating_feed =
     (Inl (Error (''Validation failed: title is required and must be a non-empty string, '' @
                  ''link must be a valid HTTP or HTTPS URL'')), validating_feed) \<and>
   validateFeedItem (plain_item ''A'' ''B'' ''https://ex.com/a'')
     (allowedDomains (config validating_feed)) = [] \<and>
   map (title \<circ> data)
     (items (snd (addItem sample_Date 7 (plain_item ''A'' ''B'' ''https://ex.com/a'')
        validating_feed))) = [''A''] \<and>
   lastBuildDate (snd (addItem sample_Date 7 (plain_item ''A'' ''B'' ''https://ex.com/a'')
     validating_feed)) = ''@7''"
proof -
  have v: "validate (config validating_feed)"
    by code_simp
  have bad: "validateFeedItem (plain_item [] ''D'' ''not-a-url'')
      (allowedDomains (config validating_feed)) \<noteq> []"
    by (simp add: scenario_c_errors)
  have good: "validateFeedItem (plain_item ''A'' ''B'' ''https://ex.com/a'')
      (allowedDomains (config validating_feed)) = []"
    by code_simp
  have iso: "getCurrentDate sample_Date 7 = ''@7''"
    by code_simp
  have empty: "items validating_feed = []"
    by code_simp
  have t: "title (processItemData validating_feed (plain_item ''A'' ''B'' ''https://ex.com/a''))
      = ''A''"
    by code_simp
  from addItem_validating [OF v, of "plain_item [] ''D'' ''not-a-url''" sample_Date 7]
    addItem_validating [OF v, of "plain_item ''A'' ''B'' ''https://ex.com/a''" sample_Date 7]
    v bad good
  show ?thesis
    by (simp add: scenario_c_errors iso empty t)
qed

text \<open>
  C3. On a feed with a non-empty \<open>baseUrl\<close>, a URL that starts with \<open>http://\<close> or
  \<open>https://\<close> is resolved to itself; any other URL becomes the base, without its final
  slash if it ends in one, followed by the URL, with a slash put in front if it has none.
  Insertion applies this to the item link, every image URL, every video thumbnail and
  content URL and every translation URL. The result depends on the base and the URL
  alone, and when the base is itself absolute resolving a second time changes nothing.
\<close>

theorem resolveUrl_against_baseUrl:
  assumes "baseUrl (config f) \<noteq> []"
  shows
    "(startsWith u ''http://'' \<or> startsWith u ''https://'' \<longrightarrow> resolveUrl f u = u) \<and>
     (\<not> startsWith u ''http://'' \<and> \<not> startsWith u ''https://'' \<longrightarrow>
        resolveUrl f u =
          (if endsWith (baseUrl (config f)) ''/'' then butlast (baseUrl (config f))
           else baseUrl (config f)) @
          (if startsWith u ''/'' then u else ''/'' @ u)) \<and>
     link (processItemData f d) = resolveUrl f (link d) \<and>
     map_option (map img_url) (images (processItemData f d)) =
       map_option (map (\<lambda>i. resolveUrl f (img_url i))) (images d) \<and>
     map_option (map thumbnail_url) (videos (processItemData f d)) =
       map_option (map (\<lambda>v. resolveUrl f (thumbnail_url v))) (videos d) \<and>
     map_option (map content_url) (videos (processItemData f d)) =
       map_option (map (\<lambda>v. resolveUrl f (content_url v))) (videos d) \<and>
     map_option (map tr_url) (item_translations (processItemData f d)) =
       map_option (map (\<lambda>t. resolveUrl f (tr_url t))) (item_translations d) \<and>
     (accepts f d \<longrightarrow>
        items (snd (addItem lib now d f)) = items f @ [\<lparr>data = processItemData f d\<rparr>]) \<and>
     (baseUrl (config g) = baseUrl (config f) \<longrightarrow> resolveUrl g u = resolveUrl f u) \<and>
     (startsWith (baseUrl (config f)) ''http://'' \<or>
      startsWith (baseUrl (config f)) ''https://'' \<longrightarrow>
        resolveUrl f (resolveUrl f u) = resolveUrl f u)"
proof -
  have abs: "startsWith u ''http://'' \<or> startsWith u ''https://'' \<Longrightarrow> resolveUrl f u = u"
    by (auto simp: resolveUrl_def)
  have rel: "\<not> startsWith u ''http://'' \<and> \<not> startsWith u ''https://'' \<Longrightarrow>
      resolveUrl f u =
        (if endsWith (baseUrl (config f)) ''/'' then butlast (baseUrl (config f))
         else baseUrl (config f)) @
        (if startsWith u ''/'' then u else ''/'' @ u)"
    using assms by (simp add: resolveUrl_def Let_def)
  have lnk: "link (processItemData f d) = resolveUrl f (link d)"
    using assms by (simp add: processItemData_def)
  have img: "map_option (map img_url) (images (processItemData f d)) =
      map_option (map (\<lambda>i. resolveUrl f (img_url i))) (images d)"
    using assms by (simp add: processItemData_def option.map_comp comp_def)
  have thumb: "map_option (map thumbnail_url) (videos (processItemData f d)) =
      map_option (map (\<lambda>v. resolveUrl f (thumbnail_url v))) (videos d)"
    using assms by (simp add: processItemData_def option.map_comp comp_def)
  have content: "map_option (map content_url) (videos (processItemData f d)) =
      map_option (map (\<lambda>v. resolveUrl f (content_url v))) (videos d)"
    using assms by (simp add: processItemData_def option.map_comp comp_def)
  have trans: "map_option (map tr_url) (item_translations (processItemData f d)) =
      map_option (map (\<lambda>t. resolveUrl f (tr_url t))) (item_translations d)"
    using assms by (simp add: processItemData_def option.map_comp comp_def)
  have ins: "accepts f d \<Longrightarrow>
      items (snd (addItem lib now d f)) = items f @ [\<lparr>data = processItemData f d\<rparr>]"
    by (simp add: addItem_accepted wrap_def)
  have same: "baseUrl (config g) = baseUrl (config f) \<Longrightarrow> resolveUrl g u = resolveUrl f u"
    by (simp add: resolveUrl_def)
  have idem: "startsWith (baseUrl (config f)) ''http://'' \<or>
      startsWith (baseUrl (config f)) ''https://'' \<Longrightarrow>
      resolveUrl f (resolveUrl f u) = resolveUrl f u"
    using resolveUrl_stays_absolute [of f u] by (auto simp: resolveUrl_def)
  from abs rel lnk img thumb content trans ins same idem show ?thesis
    by blast
qed

theorem resolveUrl_against_baseUrl_witness:
  "baseUrl (config based_feed) \<noteq> [] \<and>
   startsWith ''https://other.com/absolute-path'' ''https://'' \<and>
   resolveUrl based_feed ''https://other.com/absolute-path'' = ''https://other.com/absolute-path'' \<and>
   \<not> startsWith ''no-leading-slash'' ''http://'' \<and>
   \<not> startsWith ''no-leading-slash'' ''https://'' \<and>
   resolveUrl based_feed ''no-leading-slash'' = ''https://example.com/no-leading-slash'' \<and>
   accepts based_feed (plain_item ''A'' ''B'' ''/relative-path'') \<and>
   map (link \<circ> data)
     (items (snd (addItem sample_Date 3 (plain_item ''A'' ''B'' ''/relative-path'') based_feed))) =
     [''https://example.com/relative-path''] \<and>
   startsWith (baseUrl (config based_feed)) ''https://'' \<and>
   resolveUrl based_feed (resolveUrl based_feed ''no-leading-slash'') =
     ''https://example.com/no-leading-slash''"
proof -
  have b: "baseUrl (config based_feed) \<noteq> []"
    by code_simp
  have facts:
    "startsWith ''https://other.com/absolute-path'' ''https://''"
    "\<not> startsWith ''no-leading-slash'' ''http://''"
    "\<not> startsWith ''no-leading-slash'' ''https://''"
    "accepts based_feed (plain_item ''A'' ''B'' ''/relative-path'')"
    "startsWith (baseUrl (config based_feed)) ''https://''"
    "items based_feed = []"
    "endsWith (baseUrl (config based_feed)) ''/''"
    "butlast (baseUrl (config based_feed)) = ''https://example.com''"
    "\<not> startsWith ''no-leading-slash'' ''/''"
    "link (plain_item ''A'' ''B'' ''/relative-path'') = ''/relative-path''"
    "startsWith ''/relative-path'' ''/''"
    "\<not> startsWith ''/relative-path'' ''http://''"
    "\<not> startsWith ''/relative-path'' ''https://''"
    "startsWith ''https://example.com/no-leading-slash'' ''https://''"
    by code_simp+
  from resolveUrl_against_baseUrl [OF b,
      of "''https://other.com/absolute-path''" "plain_item ''A'' ''B'' ''/relative-path''"
        sample_Date 3 based_feed]
    resolveUrl_against_baseUrl [OF b,
      of "''no-leading-slash''" "plain_item ''A'' ''B'' ''/relative-path''"
        sample_Date 3 based_feed]
    resolveUrl_against_baseUrl [OF b,
      of "''/relative-path''" "plain_item ''A'' ''B'' ''/relative-path''"
        sample_Date 3 based_feed]
    resolveUrl_against_baseUrl [OF b,
      of "''https://example.com/no-leading-slash''" "plain_item ''A'' ''B'' ''/relative-path''"
        sample_Date 3 based_feed]
    b facts
  show ?thesis
    by simp
qed

text \<open>
  C5. \<open>getStats().sizeEstimate\<close> is 1000 plus 2000 times the item count, and
  \<open>shouldSplit()\<close> is true exactly when the item count exceeds \<open>maxItems\<close> or the estimate
  exceeds \<open>maxFileSize\<close>; with the item count equal to \<open>maxItems\<close> and the estimate equal
  to \<open>maxFileSize\<close> it is false.
\<close>

theorem shouldSplit_strictly_above_limits:
  "sizeEstimate (getStats f) = 1000 + 2000 * int (getItemCount f) \<and>
   (shouldSplit f \<longleftrightarrow>
      int (getItemCount f) > maxItems (config f) \<or>
      sizeEstimate (getStats f) > maxFileSize (config f)) \<and>
   (int (getItemCount f) = maxItems (config f) \<and>
    sizeEstimate (getStats f) = maxFileSize (config f) \<longrightarrow> \<not> shouldSplit f)"
  by (simp add: getStats_def estimateSize_def shouldSplit_def getItemCount_def)

theorem shouldSplit_strictly_above_limits_witness:
  "int (getItemCount small_feed) = maxItems (config small_feed) \<and>
   sizeEstimate (getStats small_feed) = 5000 \<and>
   sizeEstimate (getStats small_feed) = maxFileSize (config small_feed) \<and>
   \<not> shouldSplit small_feed"
proof -
  have a: "int (getItemCount small_feed) = maxItems (config small_feed)"
    by code_simp
  have b: "sizeEstimate (getStats small_feed) = maxFileSize (config small_feed)"
    by code_simp
  have c: "maxFileSize (config small_feed) = 5000"
    by code_simp
  from shouldSplit_strictly_above_limits [of small_feed] a b c show ?thesis
    by simp
qed

text \<open>
  C6. \<open>addItems\<close> calls \<open>addItem\<close> on the elements in list order. When every element is
  accepted they are all appended in that order. When the elements before some element
  are accepted and that element fails eager validation, the exception of that element
  reaches the caller and the feed keeps the items before it, in order, with the
  \<open>lastBuildDate\<close> of the last of them: nothing is rolled back. An element is refused
  exactly when validation is enabled and reports an error for it.
\<close>

theorem addItems_not_transactional:
  "(list_all (accepts f) ds \<longrightarrow>
      addItems lib clock ds f =
        (Inr (), f\<lparr>items := items f @ map (\<lambda>d. \<lparr>data = processItemData f d\<rparr>) ds,
                  lastBuildDate :=
                    (if ds = [] then lastBuildDate f
                     else getCurrentDate lib (clock (length ds - 1)))\<rparr>)) \<and>
   (list_all (accepts f) pre \<and> \<not> accepts f bad \<longrightarrow>
      addItems lib clock (pre @ bad # post) f =
        (Inl (Error (''Validation failed: '' @
           join '', '' (map message (validateFeedItem bad (allowedDomains (config f)))))),
         f\<lparr>items := items f @ map (\<lambda>d. \<lparr>data = processItemData f d\<rparr>) pre,
           lastBuildDate :=
             (if pre = [] then lastBuildDate f
              else getCurrentDate lib (clock (length pre - 1)))\<rparr>)) \<and>
   (\<not> accepts f bad \<longleftrightarrow>
      validate (config f) \<and> validateFeedItem bad (allowedDomains (config f)) \<noteq> [])"
proof -
  have w: "wrap f = (\<lambda>d. \<lparr>data = processItemData f d\<rparr>)"
    by (rule ext) (simp add: wrap_def)
  have ok: "list_all (accepts f) ds \<Longrightarrow>
      addItems lib clock ds f =
        (Inr (), f\<lparr>items := items f @ map (\<lambda>d. \<lparr>data = processItemData f d\<rparr>) ds,
                  lastBuildDate :=
                    (if ds = [] then lastBuildDate f
                     else getCurrentDate lib (clock (length ds - 1)))\<rparr>)"
    using addItems_from_accepted [of f ds lib clock 0] by (simp add: addItems_def w)
  have ko: "list_all (accepts f) pre \<and> \<not> accepts f bad \<Longrightarrow>
      addItems lib clock (pre @ bad # post) f =
        (Inl (Error (''Validation failed: '' @
           join '', '' (map message (validateFeedItem bad (allowedDomains (config f)))))),
         f\<lparr>items := items f @ map (\<lambda>d. \<lparr>data = processItemData f d\<rparr>) pre,
           lastBuildDate :=
             (if pre = [] then lastBuildDate f
              else getCurrentDate lib (clock (length pre - 1)))\<rparr>)"
    using addItems_from_rejected [of f pre bad lib clock 0 post] by (simp add: addItems_def w)
  have acc: "\<not> accepts f bad \<longleftrightarrow>
      validate (config f) \<and> validateFeedItem bad (allowedDomains (config f)) \<noteq> []"
    by (simp add: accepts_def)
  from ok ko acc show ?thesis
    by blast
qed

theorem addItems_not_transactional_witness:
  "list_all (accepts validating_feed) two_items \<and>
   \<not> accepts validating_feed (plain_item [] ''D'' ''not-a-url'') \<and>
   fst (addItems sample_Date int
          (two_items @ plain_item [] ''D'' ''not-a-url'' # [plain_item ''E'' ''F'' ''https://ex.com/e''])
          validating_feed) =
     Inl (Error (''Validation failed: title is required and must be a non-empty string, '' @
                 ''link must be a valid HTTP or HTTPS URL'')) \<and>
   map (title \<circ> data)
     (items (snd (addItems sample_Date int
        (two_items @ plain_item [] ''D'' ''not-a-url'' # [plain_item ''E'' ''F'' ''https://ex.com/e''])
        validating_feed))) = [''A'', ''C''] \<and>
   lastBuildDate (snd (addItems sample_Date int
        (two_items @ plain_item [] ''D'' ''not-a-url'' # [plain_item ''E'' ''F'' ''https://ex.com/e''])
        validating_feed)) = ''@1'' \<and>
   map (title \<circ> data) (items (snd (addItems sample_Date int two_items validating_feed))) =
     [''A'', ''C'']"
proof -
  have pre: "list_all (accepts validating_feed) two_items"
    by code_simp
  have bad: "\<not> accepts validating_feed (plain_item [] ''D'' ''not-a-url'')"
    by code_simp
  have facts:
    "items validating_feed = []"
    "map (title \<circ> (\<lambda>d. processItemData validating_feed d)) two_items = [''A'', ''C'']"
    "two_items \<noteq> []"
    "getCurrentDate sample_Date (int (length two_items - 1)) = ''@1''"
    "allowedDomains (config validating_feed) = []"
    by code_simp+
  from addItems_not_transactional
      [of validating_feed two_items sample_Date int two_items
        "plain_item [] ''D'' ''not-a-url''" "[plain_item ''E'' ''F'' ''https://ex.com/e'']"]
    pre bad facts
  show ?thesis
    by (simp add: scenario_c_errors comp_def)
qed

lemma addItem_lastBuildDate:
  "lastBuildDate (snd (addItem lib now d f)) =
     (if fst (addItem lib now d f) = Inr () then getCurrentDate lib now else lastBuildDate f)"
  by (cases "accepts f d") (simp_all add: addItem_accepted addItem_rejected)

lemma addItems_inserted:
  "length (items (snd (addItems lib clock ds f))) - length (items f) =
     length (takeWhile (accepts f) ds)"
  by (simp add: addItems_def addItems_from_prefix)

lemma addItems_lastBuildDate:
  "lastBuildDate (snd (addItems lib clock ds f)) =
     (if length (items (snd (addItems lib clock ds f))) = length (items f) then lastBuildDate f
      else getCurrentDate lib
             (clock (length (items (snd (addItems lib clock ds f))) - length (items f) - 1)))"
  by (simp add: addItems_def addItems_from_prefix)

text \<open>
  C8 (as amended). The operations on the item collection set \<open>lastBuildDate\<close> to the
  current instant: \<open>removeItems\<close> and \<open>clear\<close> always, \<open>addItem\<close> when it inserts the item,
  \<open>addItems\<close> at each item it inserts (so the date is that of the last insertion). A
  call that inserts nothing leaves the date as it was. The metadata setters \<open>setTitle\<close>,
  \<open>setDescription\<close>, \<open>setLink\<close>, \<open>setLanguage\<close>, \<open>setCopyright\<close>, \<open>setManagingEditor\<close>,
  \<open>setWebMaster\<close> and \<open>setCategory\<close> only store the trimmed value in their own field:
  every other field of the aggregate, \<open>lastBuildDate\<close> and the items included, is as it
  was, and the clock is not read.
\<close>

theorem lastBuildDate_refreshed_by_item_operations:
  "lastBuildDate (removeItems lib now p f) = getCurrentDate lib now \<and>
   lastBuildDate (clear lib now f) = getCurrentDate lib now \<and>
   lastBuildDate (snd (addItem lib now d f)) =
     (if fst (addItem lib now d f) = Inr () then getCurrentDate lib now else lastBuildDate f) \<and>
   lastBuildDate (snd (addItems lib clock ds f)) =
     (if length (items (snd (addItems lib clock ds f))) = length (items f) then lastBuildDate f
      else getCurrentDate lib
             (clock (length (items (snd (addItems lib clock ds f))) - length (items f) - 1))) \<and>
   lastBuildDate (setTitle s f) = lastBuildDate f \<and>
   lastBuildDate (setDescription s f) = lastBuildDate f \<and>
   lastBuildDate (setLink s f) = lastBuildDate f \<and>
   lastBuildDate (setLanguage s f) = lastBuildDate f \<and>
   lastBuildDate (setCopyright s f) = lastBuildDate f \<and>
   lastBuildDate (setManagingEditor s f) = lastBuildDate f \<and>
   lastBuildDate (setWebMaster s f) = lastBuildDate f \<and>
   lastBuildDate (setCategory s f) = lastBuildDate f \<and>
   setTitle s f = f\<lparr>feed_title := trim s\<rparr> \<and>
   setDescription s f = f\<lparr>feed_description := trim s\<rparr> \<and>
   setLink s f = f\<lparr>feed_link := trim s\<rparr> \<and>
   setLanguage s f = f\<lparr>feed_language := trim s\<rparr> \<and>
   setCopyright s f = f\<lparr>copyright := trim s\<rparr> \<and>
   setManagingEditor s f = f\<lparr>managingEditor := trim s\<rparr> \<and>
   setWebMaster s f = f\<lparr>webMaster := trim s\<rparr> \<and>
   setCategory s f = f\<lparr>feed_category := trim s\<rparr> \<and>
   items (setTitle s f) = items f \<and>
   items (setDescription s f) = items f \<and>
   items (setLink s f) = items f \<and>
   items (setLanguage s f) = items f \<and>
   items (setCopyright s f) = items f \<and>
   items (setManagingEditor s f) = items f \<and>
   items (setWebMaster s f) = items f \<and>
   items (setCategory s f) = items f"
  using addItem_lastBuildDate [of lib now d f] addItems_lastBuildDate [of lib clock ds f]
  by (simp add: removeItems_def clear_def setTitle_def setDescription_def setLink_def
      setLanguage_def setCopyright_def setManagingEditor_def setWebMaster_def setCategory_def)

text \<open>
  The claim as stated fails at every setter. A feed is constructed when the clock shows
  0; \<open>setTitle\<close> is called later, when the clock shows 100. The build date is still
  the one of the construction and not the one of the call.
\<close>

theorem setTitle_keeps_lastBuildDate_counterexample:
  "lastBuildDate (setTitle ''T'' (Feed_constructor sample_Date 0 empty_config)) =
     getCurrentDate sample_Date 0 \<and>
   getCurrentDate sample_Date 0 = ''@0'' \<and>
   getCurrentDate sample_Date 100 = ''@100'' \<and>
   lastBuildDate (setTitle ''T'' (Feed_constructor sample_Date 0 empty_config)) \<noteq>
     getCurrentDate sample_Date 100"
  by code_simp

text \<open>
  C10. A configuration that gives \<open>maxItems\<close> or \<open>maxFileSize\<close> as 0, or \<open>baseUrl\<close>,
  \<open>dateFormat\<close> or \<open>language\<close> as the empty string, constructs the same feed as one that
  leaves the field out: the defaults 50000, 52428800, the empty string, \<open>ISO\<close> and \<open>en\<close>
  take the place of the value. \<open>validate\<close>, \<open>escapeContent\<close>, \<open>prettyPrint\<close> and
  \<open>version\<close> keep any value that is given, \<open>false\<close> and the empty string included.
\<close>

theorem constructor_defaults:
  "Feed_constructor lib now (c\<lparr>cfg_maxItems := Some 0\<rparr>) =
     Feed_constructor lib now (c\<lparr>cfg_maxItems := None\<rparr>) \<and>
   maxItems (config (Feed_constructor lib now (c\<lparr>cfg_maxItems := Some 0\<rparr>))) = 50000 \<and>
   Feed_constructor lib now (c\<lparr>cfg_maxFileSize := Some 0\<rparr>) =
     Feed_constructor lib now (c\<lparr>cfg_maxFileSize := None\<rparr>) \<and>
   maxFileSize (config (Feed_constructor lib now (c\<lparr>cfg_maxFileSize := Some 0\<rparr>))) = 52428800 \<and>
   Feed_constructor lib now (c\<lparr>cfg_baseUrl := Some []\<rparr>) =
     Feed_constructor lib now (c\<lparr>cfg_baseUrl := None\<rparr>) \<and>
   baseUrl (config (Feed_constructor lib now (c\<lparr>cfg_baseUrl := Some []\<rparr>))) = [] \<and>
   Feed_constructor lib now (c\<lparr>cfg_dateFormat := Some []\<rparr>) =
     Feed_constructor lib now (c\<lparr>cfg_dateFormat := None\<rparr>) \<and>
   dateFormat (config (Feed_constructor lib now (c\<lparr>cfg_dateFormat := Some []\<rparr>))) = ''ISO'' \<and>
   Feed_constructor lib now (c\<lparr>cfg_language := Some []\<rparr>) =
     Feed_constructor lib now (c\<lparr>cfg_language := None\<rparr>) \<and>
   language (config (Feed_constructor lib now (c\<lparr>cfg_language := Some []\<rparr>))) = ''en'' \<and>
   feed_language (Feed_constructor lib now (c\<lparr>cfg_language := Some []\<rparr>)) = ''en'' \<and>
   validate (config (Feed_constructor lib now (c\<lparr>cfg_validate := Some v\<rparr>))) = v \<and>
   escapeContent (config (Feed_constructor lib now (c\<lparr>cfg_escapeContent := Some v\<rparr>))) = v \<and>
   prettyPrint (config (Feed_constructor lib now (c\<lparr>cfg_prettyPrint := Some v\<rparr>))) = v \<and>
   version (config (Feed_constructor lib now (c\<lparr>cfg_version := Some s\<rparr>))) = s \<and>
   escapeContent (config (Feed_constructor lib now (c\<lparr>cfg_escapeContent := None\<rparr>))) = True \<and>
   version (config (Feed_constructor lib now (c\<lparr>cfg_version := None\<rparr>))) = ''1.0.0''"
  by (simp add: Feed_constructor_def Feed_config_def or_string_def or_number_def nullish_def)

section \<open>Properties of the rendering\<close>

text \<open>
  Rendering reads the clock only through \<open>formatDate\<close> on a falsy value, and never
  passes it one: the renderers give the same result as at the instant 0.
\<close>

lemma formatDate_clock:
  "truthy_date d \<Longrightarrow> formatDate lib now d = formatDate lib 0 d"
  by (cases d) (simp_all add: formatDate_def)

lemma rssPubDate_clock: "rssPubDate lib now item = rssPubDate lib 0 item"
  by (simp add: rssPubDate_def formatRssDate_def formatDate_clock [of _ lib now]
      split: option.splits)

lemma atomUpdated_clock: "atomUpdated lib now item = atomUpdated lib 0 item"
  by (simp add: atomUpdated_def formatAtomDate_def formatDate_clock [of _ lib now]
      split: option.splits)

lemma generateRSSItem_clock: "generateRSSItem lib now = generateRSSItem lib 0"
  by (rule ext) (simp add: generateRSSItem_def rssPubDate_clock [of lib now])

lemma generateAtomEntry_clock: "generateAtomEntry lib now = generateAtomEntry lib 0"
  by (rule ext) (simp add: generateAtomEntry_def atomUpdated_clock [of lib now])

lemma generateRSS_clock:
  assumes "lastBuildDate f \<noteq> []"
  shows "generateRSS lib now f = generateRSS lib 0 f"
proof -
  have "truthy_date (DateString (lastBuildDate f))"
    using assms by simp
  then have d: "formatRssDate lib now (DateString (lastBuildDate f)) =
      formatRssDate lib 0 (DateString (lastBuildDate f))"
    by (simp add: formatRssDate_def formatDate_clock [of _ lib now])
  have e: "generateItems (generateRSSItem lib now) (items f) =
      generateItems (generateRSSItem lib 0) (items f)"
    by (simp add: generateRSSItem_clock [of lib now])
  have "rssMarkup lib now f = rssMarkup lib 0 f"
    unfolding rssMarkup_def d e ..
  then show ?thesis
    by (simp add: generateRSS_def)
qed

lemma generateAtom_clock:
  assumes "lastBuildDate f \<noteq> []"
  shows "generateAtom lib now f = generateAtom lib 0 f"
proof -
  have "truthy_date (DateString (lastBuildDate f))"
    using assms by simp
  then have d: "formatAtomDate lib now (DateString (lastBuildDate f)) =
      formatAtomDate lib 0 (DateString (lastBuildDate f))"
    by (simp add: formatAtomDate_def formatDate_clock [of _ lib now])
  have e: "generateItems (generateAtomEntry lib now) (items f) =
      generateItems (generateAtomEntry lib 0) (items f)"
    by (simp add: generateAtomEntry_clock [of lib now])
  have "atomMarkup lib now f = atomMarkup lib 0 f"
    unfolding atomMarkup_def d e ..
  then show ?thesis
    by (simp add: generateAtom_def)
qed

text \<open>
  C7. For either format, \<open>toXML\<close> leaves the aggregate exactly as it was (metadata, item
  list and \<open>lastBuildDate\<close>). On a feed whose \<open>lastBuildDate\<close> is not the empty string,
  which is every feed the constructor and the operations produce when the clock prints
  as a non-empty string, the outcome does not depend on when the call is made: a second
  call on the aggregate the first call left, at any later instant, returns the same
  string (or throws the same error).
\<close>

theorem toXML_pure_and_repeatable:
  assumes "lastBuildDate f \<noteq> []"
  shows
    "snd (toXML lib now ''rss'' f) = f \<and>
     snd (toXML lib now ''atom'' f) = f \<and>
     fst (toXML lib now' ''rss'' (snd (toXML lib now ''rss'' f))) = fst (toXML lib now ''rss'' f) \<and>
     fst (toXML lib now' ''atom'' (snd (toXML lib now ''atom'' f))) =
       fst (toXML lib now ''atom'' f)"
  using generateRSS_clock [OF assms, of lib now] generateRSS_clock [OF assms, of lib now']
    generateAtom_clock [OF assms, of lib now] generateAtom_clock [OF assms, of lib now']
  by (simp add: toXML_def)

lemma opens_with_append:
  "\<not> opens_with c a \<Longrightarrow> \<not> opens_with c b \<Longrightarrow> \<not> opens_with c (a @ b)"
proof (induction c a rule: opens_with.induct)
  case (1 c)
  then show ?case by simp
next
  case (2 c x)
  then show ?case by (cases b) simp_all
next
  case (3 c x y ys)
  then show ?case by simp
qed

lemma opens_with_no_lt: "CHR ''<'' \<notin> set s \<Longrightarrow> \<not> opens_with c s"
  by (induction c s rule: opens_with.induct) auto

lemma opens_with_concat:
  "(\<And>x. x \<in> set xs \<Longrightarrow> \<not> opens_with c (g x)) \<Longrightarrow> \<not> opens_with c (concat (map g xs))"
  by (induction xs) (simp_all add: opens_with_append)

lemma string_includes_opens_with:
  "string_includes s (CHR ''<'' # c # p) \<Longrightarrow> opens_with c s"
proof (induction c s rule: opens_with.induct)
  case (1 c)
  then show ?case by simp
next
  case (2 c x)
  then show ?case by (simp add: startsWith_def)
next
  case (3 c x y ys)
  then show ?case by (auto simp: startsWith_def)
qed

lemma replace_all_no_lt:
  "CHR ''<'' \<notin> set r \<Longrightarrow> CHR ''<'' \<notin> set s \<Longrightarrow> CHR ''<'' \<notin> set (replace_all c r s)"
  by (induction s) (auto simp: replace_all_def)

lemma replace_all_lt: "CHR ''<'' \<notin> set r \<Longrightarrow> CHR ''<'' \<notin> set (replace_all (CHR ''<'') r s)"
  by (induction s) (auto simp: replace_all_def)

lemma escapeXml_no_lt: "CHR ''<'' \<notin> set (escapeXml s)"
  unfolding escapeXml_def
  by (intro replace_all_no_lt replace_all_lt) simp_all

lemma digit_not_lt: "k < 10 \<Longrightarrow> char_of (48 + k) \<noteq> CHR ''<''" for k :: nat
proof
  assume k: "k < 10" and "char_of (48 + k) = CHR ''<''"
  then have "(of_char (char_of (48 + k) :: char) :: nat) = of_char (CHR ''<'')"
    by simp
  then have "(48 + k) mod 256 = 60"
    by simp
  with k show False by simp
qed

lemma string_of_nat_no_lt: "CHR ''<'' \<notin> set (string_of_nat n)"
proof (induction n rule: string_of_nat.induct)
  case (1 n)
  show ?case
  proof (cases "n < 10")
    case True
    then show ?thesis
      using digit_not_lt [of n] by (subst string_of_nat.simps) auto
  next
    case False
    have "n mod 10 < 10" by simp
    from digit_not_lt [OF this] 1 False show ?thesis
      by (subst string_of_nat.simps) auto
  qed
qed

lemma opens_with_skip: "\<not> opens_with c a \<Longrightarrow> opens_with c (a @ b) = opens_with c b"
proof (induction c a rule: opens_with.induct)
  case (1 c)
  then show ?case by simp
next
  case (2 c x)
  then show ?case by (cases b) simp_all
next
  case (3 c x y ys)
  then show ?case by auto
qed

lemma opens_with_Cons_other: "x \<noteq> CHR ''<'' \<Longrightarrow> opens_with c (x # s) = opens_with c s"
  by (cases s) simp_all

lemmas no_tag_simps =
  opens_with_skip opens_with_Cons_other opens_with_concat
  opens_with_no_lt [OF escapeXml_no_lt] opens_with_no_lt [OF string_of_nat_no_lt]

lemma rssEnclosure_no_p: "\<not> opens_with (CHR ''p'') (rssEnclosure e)"
  by (cases e) (simp_all add: rssEnclosure_def no_tag_simps)

lemma rssImage_no_p: "\<not> opens_with (CHR ''p'') (rssImage img)"
  by (simp add: rssImage_def no_tag_simps)

lemma rssVideo_no_p: "\<not> opens_with (CHR ''p'') (rssVideo v)"
  by (simp add: rssVideo_def no_tag_simps)

lemma rssNewsKeywords_no_p: "\<not> opens_with (CHR ''p'') (rssNewsKeywords n)"
  by (cases n) (simp_all add: rssNewsKeywords_def no_tag_simps)

lemma generateRSSItem_without_pubdate:
  assumes "pubdate item = None"
  shows "\<exists>s. generateRSSItem lib now item = Inr s \<and> \<not> string_includes s ''<pubDate>''"
proof -
  have p: "rssPubDate lib now item = Inr []"
    using assms by (simp add: rssPubDate_def)
  obtain s where s: "generateRSSItem lib now item = Inr s"
    by (simp add: generateRSSItem_def p)
  have "\<not> opens_with (CHR ''p'') s"
    using s
    by (auto simp: generateRSSItem_def p no_tag_simps rssEnclosure_no_p rssImage_no_p
        rssVideo_no_p rssNewsKeywords_no_p)
  with s string_includes_opens_with [of s "CHR ''p''" "''ubDate>''"] show ?thesis
    by auto
qed

lemma generateAtomEntry_without_pubdate:
  assumes "pubdate item = None"
  shows "\<exists>s. generateAtomEntry lib now item = Inr s \<and> \<not> string_includes s ''<updated>''"
proof -
  have p: "atomUpdated lib now item = Inr []"
    using assms by (simp add: atomUpdated_def)
  obtain s where s: "generateAtomEntry lib now item = Inr s"
    by (simp add: generateAtomEntry_def p)
  have "\<not> opens_with (CHR ''u'') s"
    using s by (auto simp: generateAtomEntry_def p no_tag_simps)
  with s string_includes_opens_with [of s "CHR ''u''" "''pdated>''"] show ?thesis
    by auto
qed


lemma split_tags_text_tag:
  "CHR ''<'' \<notin> set pre \<Longrightarrow> CHR ''>'' \<notin> set body \<Longrightarrow>
   split_tags acc (pre @ CHR ''<'' # body @ CHR ''>'' # rest) =
     (acc @ pre) # (CHR ''<'' # body @ ''>'') # split_tags [] rest"
proof (induction pre arbitrary: acc)
  case Nil
  then have "takeWhile (\<lambda>x. x \<noteq> CHR ''>'') (body @ CHR ''>'' # rest) = body"
    and "dropWhile (\<lambda>x. x \<noteq> CHR ''>'') (body @ CHR ''>'' # rest) = CHR ''>'' # rest"
    by (induction body) auto
  then show ?case by simp
next
  case (Cons a pre)
  then show ?case by auto
qed

declare formatXml_loop.simps(2) [simp del]

lemma formatXml_loop_appends:
  "formatXml_loop indent prev level result tokens = Inr out \<Longrightarrow> \<exists>r. out = result @ r"
proof (induction tokens arbitrary: prev level result)
  case Nil
  then show ?case by simp
next
  case (Cons raw rest)
  have step: "\<And>p l x. formatXml_loop indent p l (result @ x) rest = Inr out \<Longrightarrow> \<exists>r. out = result @ r"
  proof -
    fix p l x
    assume "formatXml_loop indent p l (result @ x) rest = Inr out"
    from Cons.IH [OF this] obtain r where "out = (result @ x) @ r" by blast
    then have "out = result @ (x @ r)" by simp
    then show "\<exists>r. out = result @ r" by blast
  qed
  have step0: "\<And>p l. formatXml_loop indent p l result rest = Inr out \<Longrightarrow> \<exists>r. out = result @ r"
    using step [of _ _ "[]"] by simp
  from Cons.prems show ?case
    by (auto simp: formatXml_loop.simps(2) Let_def split: if_splits sum.splits
        dest: step step0)
qed

lemma formatXml_loop_skip:
  "trim raw = [] \<Longrightarrow>
   formatXml_loop indent prev level result (raw # rest) = formatXml_loop indent raw level result rest"
  by (simp add: formatXml_loop.simps(2) Let_def)

lemma formatXml_loop_declaration:
  "trim raw \<noteq> [] \<Longrightarrow> startsWith (trim raw) ''<?xml'' \<Longrightarrow>
   formatXml_loop indent prev level result (raw # rest) =
     formatXml_loop indent raw level (result @ trim raw @ ''\<newline>'') rest"
  by (simp add: formatXml_loop.simps(2) Let_def)

lemma formatXml_loop_open_tag:
  assumes "trim raw = raw" "raw \<noteq> []" "\<not> startsWith raw ''<?xml''" "\<not> startsWith raw ''</''"
    "startsWith raw ''<''" "\<not> endsWith raw ''/>''"
  shows "formatXml_loop indent prev 0 result (raw # rest) =
      formatXml_loop indent raw 1 (result @ raw @ ''\<newline>'') rest \<or>
    formatXml_loop indent prev 0 result (raw # rest) =
      formatXml_loop indent raw 1 (result @ raw) rest"
  using assms by (simp add: formatXml_loop.simps(2) Let_def repeat_def)

lemma trim_keeps_prefix:
  assumes "X \<noteq> []" "\<not> isWhiteSpace (hd X)" "\<not> isWhiteSpace (last X)"
  shows "\<exists>rest. trim (X @ r) = X @ rest"
proof -
  from assms obtain x xs where X: "X = x # xs" and x: "\<not> isWhiteSpace x"
    by (cases X) auto
  have front: "dropWhile isWhiteSpace (X @ r) = X @ r"
    using X x by simp
  from assms have "rev X \<noteq> []" "\<not> isWhiteSpace (hd (rev X))"
    by (simp_all add: hd_rev)
  then have tail_kept: "dropWhile isWhiteSpace (rev X) = rev X"
    by (cases "rev X") auto
  have "dropWhile isWhiteSpace (rev r @ rev X) =
      (if \<forall>c \<in> set (rev r). isWhiteSpace c then rev X
       else dropWhile isWhiteSpace (rev r) @ rev X)"
    using tail_kept by (simp add: dropWhile_append)
  then have "trim (X @ r) =
      (if \<forall>c \<in> set (rev r). isWhiteSpace c then X
       else X @ rev (dropWhile isWhiteSpace (rev r)))"
    by (simp add: trim_def front)
  then show ?thesis
    by (cases "\<forall>c \<in> set (rev r). isWhiteSpace c") auto
qed

lemma xmlDeclaration_shape:
  "trim xmlDeclaration = xmlDeclaration \<and> xmlDeclaration \<noteq> [] \<and>
   startsWith xmlDeclaration ''<?xml'' \<and>
   (\<exists>body. xmlDeclaration = CHR ''<'' # body @ ''>'' \<and> CHR ''>'' \<notin> set body)"
proof -
  have "xmlDeclaration = CHR ''<'' # butlast (tl xmlDeclaration) @ ''>'' \<and>
      CHR ''>'' \<notin> set (butlast (tl xmlDeclaration))"
    by (simp add: xmlDeclaration_def)
  then have "\<exists>body. xmlDeclaration = CHR ''<'' # body @ ''>'' \<and> CHR ''>'' \<notin> set body"
    by blast
  moreover have "trim xmlDeclaration = xmlDeclaration \<and> xmlDeclaration \<noteq> [] \<and>
      startsWith xmlDeclaration ''<?xml''"
    by (simp add: xmlDeclaration_def trim_def isWhiteSpace_def startsWith_def)
  ultimately show ?thesis by blast
qed

lemma rssRoot_shape:
  "trim (rssRoot f @ ''>'') = rssRoot f @ ''>'' \<and>
   \<not> startsWith (rssRoot f @ ''>'') ''<?xml'' \<and>
   \<not> startsWith (rssRoot f @ ''>'') ''</'' \<and>
   startsWith (rssRoot f @ ''>'') ''<'' \<and>
   \<not> endsWith (rssRoot f @ ''>'') ''/>'' \<and>
   rssRoot f = CHR ''<'' # tl (rssRoot f) \<and> CHR ''>'' \<notin> set (tl (rssRoot f))"
  by (cases "hasMedia f"; cases "hasGoogleNews f")
    (simp_all add: rssRoot_def trim_def isWhiteSpace_def startsWith_def endsWith_def)


lemma generateRSS_starts_with_root:
  assumes "generateRSS lib now f = Inr out"
  shows "\<exists>rest. out = xmlDeclaration @ ''\<newline>'' @ rssRoot f @ ''>'' @ rest"
proof -
  from assms obtain rss where rss: "rssMarkup lib now f = Inr rss"
    and out: "formatXml (xmlDeclaration @ ''\<newline>'' @ rss) = Inr out"
    by (auto simp: generateRSS_def split: sum.splits)
  from rss obtain more where more: "rss = rssRoot f @ ''>'' @ more"
    by (auto simp: rssMarkup_def split: sum.splits)
  obtain dbody where d: "xmlDeclaration = CHR ''<'' # dbody @ ''>''" and dgt: "CHR ''>'' \<notin> set dbody"
    using xmlDeclaration_shape by blast
  let ?R = "rssRoot f @ ''>''"
  have r: "rssRoot f = CHR ''<'' # tl (rssRoot f)" and rgt: "CHR ''>'' \<notin> set (tl (rssRoot f))"
    using rssRoot_shape [of f] by simp_all
  have R: "?R = CHR ''<'' # tl (rssRoot f) @ ''>''"
    using r by (metis append_Cons)
  have "xmlDeclaration @ ''\<newline>'' @ rss =
      [] @ CHR ''<'' # dbody @ CHR ''>'' # (''\<newline>'' @ CHR ''<'' # tl (rssRoot f) @ CHR ''>'' # more)"
    using d R more by simp
  then have "split_tags [] (xmlDeclaration @ ''\<newline>'' @ rss) =
      ([] @ []) # (CHR ''<'' # dbody @ ''>'') #
      split_tags [] (''\<newline>'' @ CHR ''<'' # tl (rssRoot f) @ CHR ''>'' # more)"
    using split_tags_text_tag [of "[]" dbody "[]"] dgt by simp
  also have "split_tags [] (''\<newline>'' @ CHR ''<'' # tl (rssRoot f) @ CHR ''>'' # more) =
      ([] @ ''\<newline>'') # (CHR ''<'' # tl (rssRoot f) @ ''>'') # split_tags [] more"
    using rgt by (intro split_tags_text_tag) simp_all
  finally have tokens: "split_tags [] (xmlDeclaration @ ''\<newline>'' @ rss) =
      [] # xmlDeclaration # ''\<newline>'' # ?R # split_tags [] more"
    using d R by simp
  define T where "T = split_tags [] more"
  have t1: "trim ''\<newline>'' = []" "trim [] = []"
    by (simp_all add: trim_def isWhiteSpace_def)
  have "formatXml_loop ''  '' [] 0 [] ([] # xmlDeclaration # ''\<newline>'' # ?R # T) =
      formatXml_loop ''  '' ''\<newline>'' 0 (xmlDeclaration @ ''\<newline>'') (?R # T)"
    using xmlDeclaration_shape
    by (simp add: formatXml_loop_skip formatXml_loop_declaration t1)
  moreover have "formatXml_loop ''  '' ''\<newline>'' 0 (xmlDeclaration @ ''\<newline>'') (?R # T) =
        formatXml_loop ''  '' ?R 1 ((xmlDeclaration @ ''\<newline>'') @ ?R @ ''\<newline>'') T \<or>
      formatXml_loop ''  '' ''\<newline>'' 0 (xmlDeclaration @ ''\<newline>'') (?R # T) =
        formatXml_loop ''  '' ?R 1 ((xmlDeclaration @ ''\<newline>'') @ ?R) T"
    using rssRoot_shape [of f] by (intro formatXml_loop_open_tag) simp_all
  ultimately obtain nl where
    "formatXml_loop ''  '' [] 0 [] ([] # xmlDeclaration # ''\<newline>'' # ?R # T) =
      formatXml_loop ''  '' ?R 1 ((xmlDeclaration @ ''\<newline>'' @ ?R) @ nl) T"
    by (metis append.assoc append_Nil2)
  moreover from out obtain raw where
    raw: "formatXml_loop ''  '' [] 0 [] (split_tags [] (xmlDeclaration @ ''\<newline>'' @ rss)) = Inr raw"
    and trimmed: "out = trim raw"
    by (auto simp: formatXml_def split: sum.splits)
  ultimately have "formatXml_loop ''  '' ?R 1 ((xmlDeclaration @ ''\<newline>'' @ ?R) @ nl) T = Inr raw"
    unfolding tokens T_def by simp
  from formatXml_loop_appends [OF this] obtain r where
    "raw = (xmlDeclaration @ ''\<newline>'' @ ?R) @ (nl @ r)"
    by auto
  moreover have "\<exists>rest. trim ((xmlDeclaration @ ''\<newline>'' @ ?R) @ (nl @ r)) =
      (xmlDeclaration @ ''\<newline>'' @ ?R) @ rest"
  proof (rule trim_keeps_prefix)
    show "xmlDeclaration @ ''\<newline>'' @ ?R \<noteq> []" by simp
    show "\<not> isWhiteSpace (hd (xmlDeclaration @ ''\<newline>'' @ ?R))"
      by (simp add: d isWhiteSpace_def)
    show "\<not> isWhiteSpace (last (xmlDeclaration @ ''\<newline>'' @ ?R))"
      by (simp add: isWhiteSpace_def)
  qed
  ultimately show ?thesis
    using trimmed by auto
qed

lemma rssRoot_declares_media:
  \<open>string_includes (rssRoot f) ''xmlns:media="http://search.yahoo.com/mrss/"'' = hasMedia f\<close>
  by (cases "hasMedia f"; cases "hasGoogleNews f")
    (simp_all add: rssRoot_def startsWith_def)

lemma rssRoot_declares_news:
  \<open>string_includes (rssRoot f) ''xmlns:news="http://www.google.com/schemas/sitemap-news/0.9"''
     = hasGoogleNews f\<close>
  by (cases "hasMedia f"; cases "hasGoogleNews f")
    (simp_all add: rssRoot_def startsWith_def)

lemma some_nonempty:
  "(case xs of None \<Rightarrow> False | Some l \<Rightarrow> length l > 0) = (\<exists>l. xs = Some l \<and> l \<noteq> [])"
  by (cases xs) simp_all

lemma hasMedia_iff:
  "hasMedia f \<longleftrightarrow>
     (\<exists>item \<in> set (items f).
        (\<exists>l. images (data item) = Some l \<and> l \<noteq> []) \<or>
        (\<exists>l. videos (data item) = Some l \<and> l \<noteq> []))"
  by (simp add: hasMedia_def list_ex_iff some_nonempty)

lemma hasGoogleNews_iff:
  "hasGoogleNews f \<longleftrightarrow> (\<exists>item \<in> set (items f). news (data item) \<noteq> None)"
  by (simp add: hasGoogleNews_def list_ex_iff)

lemma scenario_a_rss:
  \<open>fst (toXML sample_Date 9 ''rss'' scenario_a) =
     Inr (''<?xml version="1.0" encoding="UTF-8"?>\<newline>'' @
          ''<rss version="2.0">\<newline>'' @
          ''  <channel>\<newline>'' @
          ''    <title>T</title>\<newline>'' @
          ''    <link>https://ex.com</link>\<newline>'' @
          ''    <description>D</description>\<newline>'' @
          ''    <language>en</language>\<newline>'' @
          ''    <lastBuildDate>utc 5</lastBuildDate>\<newline>'' @
          ''    <generator>@rumenx/feed v1.0.0</generator>\<newline>'' @
          ''    <item>\<newline>'' @
          ''      <title>A</title>\<newline>'' @
          ''      <link>https://ex.com/a</link>\<newline>'' @
          ''      <description>B</description>\<newline>'' @
          ''      <guid>https://ex.com/a</guid>\<newline>'' @
          ''    </item>\<newline>'' @
          ''  </channel>\<newline>'' @
          ''</rss>'')\<close>
  by code_simp


lemma scenario_b_rss:
  \<open>fst (toXML sample_Date 9 ''rss'' scenario_b) =
     Inr (''<?xml version="1.0" encoding="UTF-8"?>\<newline>'' @
          ''<rss version="2.0" xmlns:media="http://search.yahoo.com/mrss/">\<newline>'' @
          ''  <channel>\<newline>'' @
          ''    <title>T</title>\<newline>'' @
          ''    <link>https://ex.com</link>\<newline>'' @
          ''    <description>D</description>\<newline>'' @
          ''    <language>en</language>\<newline>'' @
          ''    <lastBuildDate>utc 6</lastBuildDate>\<newline>'' @
          ''    <generator>@rumenx/feed v1.0.0</generator>\<newline>'' @
          ''    <item>\<newline>'' @
          ''      <title>A</title>\<newline>'' @
          ''      <link>https://ex.com/a</link>\<newline>'' @
          ''      <description>B</description>\<newline>'' @
          ''      <guid>https://ex.com/a</guid>\<newline>'' @
          ''    </item>\<newline>'' @
          ''    <item>\<newline>'' @
          ''      <title>P</title>\<newline>'' @
          ''      <link>https://ex.com/p</link>\<newline>'' @
          ''      <description>Q</description>\<newline>'' @
          ''      <guid>https://ex.com/p</guid>\<newline>'' @
          ''      <media:content url="https://ex.com/i.png"/>\<newline>'' @
          ''    </item>\<newline>'' @
          ''  </channel>\<newline>'' @
          ''</rss>'')\<close>
  by code_simp

lemma scenario_a_atom:
  \<open>fst (toXML sample_Date 9 ''atom'' scenario_a) =
     Inr (''<?xml version="1.0" encoding="UTF-8"?>\<newline>'' @
          ''<feed xmlns="http://www.w3.org/2005/Atom">\<newline>'' @
          ''  <title>T</title>\<newline>'' @
          ''  <link href="https://ex.com"/>\<newline>'' @
          ''  <id>https://ex.com</id>\<newline>'' @
          ''  <updated>@5</updated>\<newline>'' @
          ''  <subtitle>D</subtitle>\<newline>'' @
          ''  <generator>@rumenx/feed v1.0.0</generator>\<newline>'' @
          ''  <entry>\<newline>'' @
          ''    <title>A</title>\<newline>'' @
          ''    <link href="https://ex.com/a"/>\<newline>'' @
          ''    <id>https://ex.com/a</id>\<newline>'' @
          ''    <summary>B</summary>\<newline>'' @
          ''  </entry>\<newline>'' @
          ''</feed>'')\<close>
  by code_simp

text \<open>
  When the clock never prints as the empty string, no feed has an empty \<open>lastBuildDate\<close>.
\<close>

lemma lastBuildDate_never_empty:
  assumes "\<And>t. toISOString lib t \<noteq> []"
  shows "lastBuildDate (Feed_constructor lib now c) \<noteq> []"
    and "lastBuildDate f \<noteq> [] \<Longrightarrow> lastBuildDate (snd (addItem lib now d f)) \<noteq> []"
    and "lastBuildDate f \<noteq> [] \<Longrightarrow> lastBuildDate (snd (addItems lib clock ds f)) \<noteq> []"
    and "lastBuildDate (removeItems lib now p f) \<noteq> []"
    and "lastBuildDate (clear lib now f) \<noteq> []"
  using assms
  by (simp_all add: Feed_constructor_def getCurrentDate_def addItem_lastBuildDate
      addItems_lastBuildDate removeItems_def clear_def)

text \<open>
  C4. The start tag of the root element that \<open>generateRSS\<close> builds holds the declaration
  \<open>xmlns:media="http://search.yahoo.com/mrss/"\<close> exactly when some item has at least one
  image or at least one video, and the \<open>xmlns:news\<close> declaration exactly when some item
  has a news block; when no item has any of them the tag is \<open><rss version="2.0">\<close>.
  Whenever the RSS rendering returns a document, the document begins with the XML
  declaration, a line break and this start tag.
\<close>

theorem rss_root_namespaces:
  \<open>(string_includes (rssRoot f) ''xmlns:media="http://search.yahoo.com/mrss/"'' \<longleftrightarrow>
      (\<exists>item \<in> set (items f).
         (\<exists>l. images (data item) = Some l \<and> l \<noteq> []) \<or>
         (\<exists>l. videos (data item) = Some l \<and> l \<noteq> []))) \<and>
   (string_includes (rssRoot f)
      ''xmlns:news="http://www.google.com/schemas/sitemap-news/0.9"'' \<longleftrightarrow>
      (\<exists>item \<in> set (items f). news (data item) \<noteq> None)) \<and>
   (\<not> hasMedia f \<and> \<not> hasGoogleNews f \<longrightarrow> rssRoot f @ ''>'' = ''<rss version="2.0">'') \<and>
   (fst (toXML lib now ''rss'' f) = Inr out \<longrightarrow>
      (\<exists>rest. out = xmlDeclaration @ ''\<newline>'' @ rssRoot f @ ''>'' @ rest))\<close>
proof -
  have plain: \<open>\<not> hasMedia f \<and> \<not> hasGoogleNews f \<Longrightarrow> rssRoot f @ ''>'' = ''<rss version="2.0">''\<close>
    by (simp add: rssRoot_def)
  have doc: "fst (toXML lib now ''rss'' f) = Inr out \<Longrightarrow>
      \<exists>rest. out = xmlDeclaration @ ''\<newline>'' @ rssRoot f @ ''>'' @ rest"
    using generateRSS_starts_with_root [of lib now f out] by (simp add: toXML_def)
  from plain doc show ?thesis
    unfolding rssRoot_declares_media rssRoot_declares_news hasMedia_iff [symmetric]
      hasGoogleNews_iff [symmetric]
    by blast
qed

theorem rss_root_namespaces_witness:
  \<open>hasMedia scenario_b \<and> \<not> hasGoogleNews scenario_b \<and>
   (\<exists>item \<in> set (items scenario_b).
      (\<exists>l. images (data item) = Some l \<and> l \<noteq> []) \<or>
      (\<exists>l. videos (data item) = Some l \<and> l \<noteq> [])) \<and>
   rssRoot scenario_b @ ''>'' =
     ''<rss version="2.0" xmlns:media="http://search.yahoo.com/mrss/">'' \<and>
   (\<exists>rest. fst (toXML sample_Date 9 ''rss'' scenario_b) =
      Inr (xmlDeclaration @ ''\<newline>'' @ rssRoot scenario_b @ ''>'' @ rest)) \<and>
   \<not> hasMedia scenario_a \<and> \<not> hasGoogleNews scenario_a \<and>
   rssRoot scenario_a @ ''>'' = ''<rss version="2.0">''\<close>
proof -
  have b: \<open>hasMedia scenario_b\<close> \<open>\<not> hasGoogleNews scenario_b\<close>
    \<open>string_includes (rssRoot scenario_b) ''xmlns:media="http://search.yahoo.com/mrss/"''\<close>
    \<open>rssRoot scenario_b @ ''>'' =
      ''<rss version="2.0" xmlns:media="http://search.yahoo.com/mrss/">''\<close>
    by code_simp+
  have a: \<open>\<not> hasMedia scenario_a\<close> \<open>\<not> hasGoogleNews scenario_a\<close>
    by code_simp+
  obtain out where out: "fst (toXML sample_Date 9 ''rss'' scenario_b) = Inr out"
    using scenario_b_rss by blast
  from rss_root_namespaces [of scenario_b sample_Date 9 out]
    rss_root_namespaces [of scenario_a sample_Date 9 out] a b out
  show ?thesis
    by auto
qed

text \<open>
  C7 at scenario (a): the feed has a non-empty build date, both renderings return a
  document, and a second call much later returns the same document.
\<close>

theorem toXML_pure_and_repeatable_witness:
  "lastBuildDate scenario_a \<noteq> [] \<and>
   snd (toXML sample_Date 9 ''rss'' scenario_a) = scenario_a \<and>
   \<not> isl (fst (toXML sample_Date 9 ''rss'' scenario_a)) \<and>
   fst (toXML sample_Date 86400000 ''rss'' (snd (toXML sample_Date 9 ''rss'' scenario_a))) =
     fst (toXML sample_Date 9 ''rss'' scenario_a) \<and>
   \<not> isl (fst (toXML sample_Date 9 ''atom'' scenario_a)) \<and>
   fst (toXML sample_Date 86400000 ''atom'' (snd (toXML sample_Date 9 ''atom'' scenario_a))) =
     fst (toXML sample_Date 9 ''atom'' scenario_a)"
proof -
  have ne: "lastBuildDate scenario_a \<noteq> []"
    by code_simp
  have rss: "\<not> isl (fst (toXML sample_Date 9 ''rss'' scenario_a))"
    unfolding scenario_a_rss by simp
  have atom: "\<not> isl (fst (toXML sample_Date 9 ''atom'' scenario_a))"
    unfolding scenario_a_atom by simp
  from toXML_pure_and_repeatable [OF ne, of sample_Date 9 86400000] ne rss atom show ?thesis
    by blast
qed

text \<open>
  C9 (as amended). For an entry added without a \<open>pubdate\<close>, rendering assigns no
  timestamp at all: the stored item still has no \<open>pubdate\<close>, its RSS item is rendered
  without a \<open>pubDate\<close> element and its Atom entry without an \<open>updated\<close> element, whatever
  the clock shows when the feed is rendered. \<open>FeedItem.getPubDate\<close> on such an entry
  returns the instant of the \<open>getPubDate\<close> call itself, not the instant of insertion.
\<close>

theorem no_timestamp_without_pubdate:
  assumes "pubdate d = None"
  shows
    "pubdate (processItemData f d) = None \<and>
     (\<exists>s. generateRSSItem lib now (processItemData f d) = Inr s \<and>
          \<not> string_includes s ''<pubDate>'') \<and>
     (\<exists>s. generateAtomEntry lib now (processItemData f d) = Inr s \<and>
          \<not> string_includes s ''<updated>'') \<and>
     getPubDate lib now \<lparr>data = processItemData f d\<rparr> = Inr (getCurrentDate lib now)"
proof -
  have p: "pubdate (processItemData f d) = None"
    using assms by (simp add: processItemData_def)
  from p generateRSSItem_without_pubdate [OF p, of lib now]
    generateAtomEntry_without_pubdate [OF p, of lib now]
  show ?thesis
    by (simp add: getPubDate_def)
qed

theorem no_timestamp_without_pubdate_witness:
  "pubdate (plain_item ''A'' ''B'' ''https://ex.com/a'') = None \<and>
   map (pubdate \<circ> data) (items scenario_a) = [None] \<and>
   (\<exists>s. generateRSSItem sample_Date 9 (data (hd (items scenario_a))) = Inr s \<and>
        \<not> string_includes s ''<pubDate>'') \<and>
   (\<exists>s. generateAtomEntry sample_Date 9 (data (hd (items scenario_a))) = Inr s \<and>
        \<not> string_includes s ''<updated>'') \<and>
   getPubDate sample_Date 90 (hd (items scenario_a)) = Inr ''@90''"
proof -
  have n: "pubdate (plain_item ''A'' ''B'' ''https://ex.com/a'') = None"
    by code_simp
  have facts:
    "hd (items scenario_a) =
      \<lparr>data = processItemData scenario_a (plain_item ''A'' ''B'' ''https://ex.com/a'')\<rparr>"
    "map (pubdate \<circ> data) (items scenario_a) = [None]"
    "getCurrentDate sample_Date 90 = ''@90''"
    by code_simp+
  from no_timestamp_without_pubdate [OF n, of scenario_a sample_Date 9]
    no_timestamp_without_pubdate [OF n, of scenario_a sample_Date 90] n facts
  show ?thesis
    by simp
qed

text \<open>
  The claim as stated fails at scenario (a). The item is added without a \<open>pubdate\<close> when
  the clock shows 5. Its RSS item and its Atom entry, rendered when the clock shows 9,
  hold no timestamp of the entry at all, and \<open>getPubDate\<close>, asked when the clock shows
  90, answers 90 and not 5.
\<close>

theorem no_timestamp_counterexample:
  \<open>lastBuildDate scenario_a = ''@5'' \<and>
   generateRSSItem sample_Date 9 (data (hd (items scenario_a))) =
     Inr (''    <item>\<newline>'' @
          ''      <title>A</title>\<newline>'' @
          ''      <link>https://ex.com/a</link>\<newline>'' @
          ''      <description>B</description>\<newline>'' @
          ''      <guid>https://ex.com/a</guid>\<newline>'' @
          ''    </item>\<newline>'') \<and>
   generateAtomEntry sample_Date 9 (data (hd (items scenario_a))) =
     Inr (''  <entry>\<newline>'' @
          ''    <title>A</title>\<newline>'' @
          ''    <link href="https://ex.com/a"/>\<newline>'' @
          ''    <id>https://ex.com/a</id>\<newline>'' @
          ''    <summary>B</summary>\<newline>'' @
          ''  </entry>\<newline>'') \<and>
   \<not> string_includes (projr (fst (toXML sample_Date 9 ''rss'' scenario_a))) ''<pubDate>'' \<and>
   \<not> isl (fst (toXML sample_Date 9 ''rss'' scenario_a)) \<and>
   getPubDate sample_Date 90 (hd (items scenario_a)) = Inr ''@90''\<close>
proof -
  have entry:
    \<open>lastBuildDate scenario_a = ''@5''\<close>
    \<open>generateRSSItem sample_Date 9 (data (hd (items scenario_a))) =
      Inr (''    <item>\<newline>'' @
           ''      <title>A</title>\<newline>'' @
           ''      <link>https://ex.com/a</link>\<newline>'' @
           ''      <description>B</description>\<newline>'' @
           ''      <guid>https://ex.com/a</guid>\<newline>'' @
           ''    </item>\<newline>'')\<close>
    \<open>generateAtomEntry sample_Date 9 (data (hd (items scenario_a))) =
      Inr (''  <entry>\<newline>'' @
           ''    <title>A</title>\<newline>'' @
           ''    <link href="https://ex.com/a"/>\<newline>'' @
           ''    <id>https://ex.com/a</id>\<newline>'' @
           ''    <summary>B</summary>\<newline>'' @
           ''  </entry>\<newline>'')\<close>
    \<open>getPubDate sample_Date 90 (hd (items scenario_a)) = Inr ''@90''\<close>
    by code_simp+
  have absent:
    \<open>\<not> string_includes (projr (fst (toXML sample_Date 9 ''rss'' scenario_a))) ''<pubDate>''\<close>
    unfolding scenario_a_rss by code_simp
  have returned: \<open>\<not> isl (fst (toXML sample_Date 9 ''rss'' scenario_a))\<close>
    unfolding scenario_a_rss by simp
  from entry absent returned show ?thesis
    by blast
qed

end
